theory Spec2Isabelle
  imports Complex_Main
begin

section \<open>The entity schema\<close>

text \<open>
  The development follows \<^verbatim>\<open>orbitx/state.py\<close>: the class \<^verbatim>\<open>PhysicsState\<close>, which keeps
  the mutable fields of every entity in one flat float64 vector, and the class
  \<^verbatim>\<open>_EntityView\<close>, whose properties read and write that vector.

  A float64 is a value of the type \<open>float64\<close> below: a finite number, an infinity or
  NaN. The one arithmetic operation of the file, \<^verbatim>\<open>np.mod(h, 2 * np.pi)\<close>, is modelled
  with the constant and the rounding of IEEE-754 double precision.
\<close>

datatype field =
    f_name | f_x | f_y | f_vx | f_vy | f_r | f_mass | f_heading | f_spin | f_fuel
  | f_throttle | f_landed_on | f_broken | f_artificial | f_atmosphere_thickness
  | f_atmosphere_scaling

datatype cpp_type = CPPTYPE_FLOAT | CPPTYPE_DOUBLE | CPPTYPE_BOOL | CPPTYPE_STRING

text \<open>
  Modelled from the spec: \<^verbatim>\<open>protos.Entity.DESCRIPTOR.fields\<close> belongs to the generated
  module \<^verbatim>\<open>orbitx_pb2\<close>, which is not among the sources. The fields, their order and
  their types are those of the annotations of class \<^verbatim>\<open>Entity\<close> (\<^verbatim>\<open>name: str\<close>,
  \<^verbatim>\<open>x: float\<close>, ..., \<^verbatim>\<open>atmosphere_scaling: float\<close>) and of the spec's data model.
\<close>

definition DESCRIPTOR_fields :: "field list" where
  "DESCRIPTOR_fields =
     [f_name, f_x, f_y, f_vx, f_vy, f_r, f_mass, f_heading, f_spin, f_fuel, f_throttle,
      f_landed_on, f_broken, f_artificial, f_atmosphere_thickness, f_atmosphere_scaling]"

fun cpp_type_of :: "field \<Rightarrow> cpp_type" where
  "cpp_type_of f_name = CPPTYPE_STRING"
| "cpp_type_of f_landed_on = CPPTYPE_STRING"
| "cpp_type_of f_broken = CPPTYPE_BOOL"
| "cpp_type_of f_artificial = CPPTYPE_BOOL"
| "cpp_type_of _ = CPPTYPE_DOUBLE"

definition PER_ENTITY_UNCHANGING_FIELDS :: "field list" where
  "PER_ENTITY_UNCHANGING_FIELDS =
     [f_name, f_mass, f_r, f_artificial, f_atmosphere_thickness, f_atmosphere_scaling]"

definition PER_ENTITY_MUTABLE_FIELDS :: "field list" where
  "PER_ENTITY_MUTABLE_FIELDS =
     filter (\<lambda>f. f \<notin> set PER_ENTITY_UNCHANGING_FIELDS) DESCRIPTOR_fields"

text \<open>
  \<^verbatim>\<open>_FIELD_ORDERING\<close> is a dict built from \<^verbatim>\<open>enumerate(_PER_ENTITY_MUTABLE_FIELDS)\<close>; it is
  kept as the list of its items, in insertion order, because \<^verbatim>\<open>__init__\<close> iterates over
  \<^verbatim>\<open>_FIELD_ORDERING.items()\<close>.
\<close>

definition FIELD_ORDERING :: "(field \<times> nat) list" where
  "FIELD_ORDERING =
     zip PER_ENTITY_MUTABLE_FIELDS [0 ..< length PER_ENTITY_MUTABLE_FIELDS]"

definition LANDED_ON :: field where
  "LANDED_ON = f_landed_on"

section \<open>Values, errors and Python's containers\<close>

text \<open>
  The values of a float64. A finite value is given by the real number it denotes: every
  double is such a number, and the statements below hold for every real, a double or not.
  The two zeros, which compare equal and which no operation of the file tells apart, are
  the one value \<open>Finite 0\<close>. Equality on this type is the identity of values, so NaN is
  equal to itself, while Python's comparison of a float with NaN is false; the file
  compares a float with a finite number only (in \<^verbatim>\<open>craft\<close>, in the \<^verbatim>\<open>bool(...)\<close> of the
  getter of a bool field and in the test of the atmosphere fields), where the two agree.
\<close>

datatype float64 = Finite real | PosInf | NegInf | NaN

datatype val = VFloat float64 | VBool bool | VStr string

datatype error =
    NoEntityError string
  | ValueError
  | OverflowError
  | IndexError
  | KeyError
  | AssertionError
  | TypeError
  | NotImplementedError

text \<open>Indexing a Python list or a numpy vector: a negative index counts from the end.\<close>

definition py_index :: "nat \<Rightarrow> int \<Rightarrow> nat option" where
  "py_index len j =
     (if 0 \<le> j \<and> j < int len then Some (nat j)
      else if - int len \<le> j \<and> j < 0 then Some (nat (int len + j))
      else None)"

definition py_get :: "'a list \<Rightarrow> int \<Rightarrow> error + 'a" where
  "py_get xs j = (case py_index (length xs) j of
                    None \<Rightarrow> Inl IndexError
                  | Some k \<Rightarrow> Inr (xs ! k))"

definition py_set :: "'a list \<Rightarrow> int \<Rightarrow> 'a \<Rightarrow> error + 'a list" where
  "py_set xs j v = (case py_index (length xs) j of
                      None \<Rightarrow> Inl IndexError
                    | Some k \<Rightarrow> Inr (xs[k := v]))"

text \<open>\<^verbatim>\<open>xs[lo:hi]\<close> for bounds that are not negative; the bounds are clamped.\<close>

definition py_slice :: "'a list \<Rightarrow> nat \<Rightarrow> nat \<Rightarrow> 'a list" where
  "py_slice xs lo hi = drop lo (take hi xs)"

text \<open>Writing through a slice view that starts at \<open>lo\<close>: the vector with the run replaced.\<close>

definition slice_assign :: "'a list \<Rightarrow> nat \<Rightarrow> 'a list \<Rightarrow> 'a list" where
  "slice_assign xs lo vs = take lo xs @ vs @ drop (lo + length vs) xs"

text \<open>\<^verbatim>\<open>list.index\<close>: the first position of the element; \<open>None\<close> stands for its ValueError.\<close>

fun list_index :: "'a list \<Rightarrow> 'a \<Rightarrow> nat option" where
  "list_index [] a = None"
| "list_index (b # bs) a = (if b = a then Some 0 else map_option Suc (list_index bs a))"

text \<open>
  \<^verbatim>\<open>int(v)\<close> of a float truncates towards zero; it raises ValueError for NaN and
  OverflowError for an infinity.
\<close>

definition trunc :: "real \<Rightarrow> int" where
  "trunc v = (if 0 \<le> v then \<lfloor>v\<rfloor> else \<lceil>v\<rceil>)"

fun py_int :: "float64 \<Rightarrow> error + int" where
  "py_int (Finite v) = Inr (trunc v)"
| "py_int NaN = Inl ValueError"
| "py_int PosInf = Inl OverflowError"
| "py_int NegInf = Inl OverflowError"

text \<open>
  \<^verbatim>\<open>np.pi\<close> is the double nearest to the number pi, \<open>0x400921FB54442D18\<close>, and the
  product \<^verbatim>\<open>2 * np.pi\<close> is exact in double precision.
\<close>

definition np_pi :: real where
  "np_pi = 884279719003555 / 2 ^ 48"

text \<open>
  Rounding a real number to double precision, to the nearest double with ties to the
  even significand: \<open>float64_ulp x\<close> is the distance of the doubles around \<open>x\<close>, with the
  exponent of the subnormal numbers as its least. The sum that \<^verbatim>\<open>np.mod\<close> rounds is
  smaller in magnitude than the divisor, so the overflow to an infinity is not modelled.
\<close>

definition float64_ulp :: "real \<Rightarrow> real" where
  "float64_ulp x = 2 powr (of_int (max \<lfloor>log 2 \<bar>x\<bar>\<rfloor> (- 1022)) - 52)"

definition round_half_even :: "real \<Rightarrow> int" where
  "round_half_even q =
     (if q - of_int \<lfloor>q\<rfloor> < 1 / 2 then \<lfloor>q\<rfloor>
      else if 1 / 2 < q - of_int \<lfloor>q\<rfloor> then \<lfloor>q\<rfloor> + 1
      else if even \<lfloor>q\<rfloor> then \<lfloor>q\<rfloor>
      else \<lfloor>q\<rfloor> + 1)"

definition float64_round :: "real \<Rightarrow> real" where
  "float64_round x =
     (if x = 0 then 0 else of_int (round_half_even (x / float64_ulp x)) * float64_ulp x)"

text \<open>
  \<^verbatim>\<open>np.mod\<close> belongs to numpy, which is not among the sources; the model follows its
  implementation for doubles (\<^verbatim>\<open>npy_divmod\<close>). On finite operands with a divisor that is
  not zero it takes the remainder of C's \<^verbatim>\<open>fmod\<close>, which is exact and has the sign of
  the dividend, and when that remainder is not zero and its sign differs from the
  divisor's it adds the divisor, in double precision; a remainder of zero is returned as
  zero. A dividend that is NaN or an infinity, and a divisor of zero, give NaN. The
  divisor of the one call in the file is the finite constant \<^verbatim>\<open>2 * np.pi\<close>, so the
  divisor is a real number here.
\<close>

definition fmod :: "real \<Rightarrow> real \<Rightarrow> real" where
  "fmod a b = a - b * of_int (trunc (a / b))"

definition npy_divmod_mod :: "real \<Rightarrow> real \<Rightarrow> real" where
  "npy_divmod_mod a b =
     (let m = fmod a b
      in if m \<noteq> 0 then (if (b < 0) \<noteq> (m < 0) then float64_round (m + b) else m)
         else 0)"

fun np_mod :: "float64 \<Rightarrow> real \<Rightarrow> float64" where
  "np_mod (Finite a) b = (if b = 0 then NaN else Finite (npy_divmod_mod a b))"
| "np_mod PosInf b = NaN"
| "np_mod NegInf b = NaN"
| "np_mod NaN b = NaN"

text \<open>
  Storing a Python value into the float64 vector: a float is stored as it is, a bool as
  1.0 or 0.0. A str that is not a number raises ValueError.
\<close>

fun to_float :: "val \<Rightarrow> error + float64" where
  "to_float (VFloat v) = Inr v"
| "to_float (VBool b) = Inr (Finite (if b then 1 else 0))"
| "to_float (VStr _) = Inl ValueError"

text \<open>A loop whose body may raise: the first error ends it.\<close>

fun foldM_err :: "('s \<Rightarrow> 'a \<Rightarrow> error + 's) \<Rightarrow> 's \<Rightarrow> 'a list \<Rightarrow> error + 's" where
  "foldM_err f s [] = Inr s"
| "foldM_err f s (a # as) = (case f s a of Inl e \<Rightarrow> Inl e | Inr s' \<Rightarrow> foldM_err f s' as)"

fun mapM_err :: "('a \<Rightarrow> error + 'b) \<Rightarrow> 'a list \<Rightarrow> error + 'b list" where
  "mapM_err f [] = Inr []"
| "mapM_err f (a # as) =
     (case f a of
        Inl e \<Rightarrow> Inl e
      | Inr b \<Rightarrow> (case mapM_err f as of Inl e \<Rightarrow> Inl e | Inr bs \<Rightarrow> Inr (b # bs)))"

section \<open>The structured snapshot\<close>

text \<open>
  \<^verbatim>\<open>protos.Entity\<close> and \<^verbatim>\<open>protos.PhysicalState\<close>. The selectors of the entity carry the
  prefix \<open>e_\<close>: field \<^verbatim>\<open>x\<close> of the message is \<open>e_x\<close>.
\<close>

record entity =
  e_name :: string
  e_x :: float64
  e_y :: float64
  e_vx :: float64
  e_vy :: float64
  e_r :: float64
  e_mass :: float64
  e_heading :: float64
  e_spin :: float64
  e_fuel :: float64
  e_throttle :: float64
  e_landed_on :: string
  e_broken :: bool
  e_artificial :: bool
  e_atmosphere_thickness :: float64
  e_atmosphere_scaling :: float64

record PhysicalState =
  entities :: "entity list"
  timestamp :: float64
  srb_time :: float64
  time_acc :: float64
  parachute_deployed :: bool
  reference :: string
  target :: string
  navmode :: int

fun getattr :: "entity \<Rightarrow> field \<Rightarrow> val" where
  "getattr e f_name = VStr (e_name e)"
| "getattr e f_x = VFloat (e_x e)"
| "getattr e f_y = VFloat (e_y e)"
| "getattr e f_vx = VFloat (e_vx e)"
| "getattr e f_vy = VFloat (e_vy e)"
| "getattr e f_r = VFloat (e_r e)"
| "getattr e f_mass = VFloat (e_mass e)"
| "getattr e f_heading = VFloat (e_heading e)"
| "getattr e f_spin = VFloat (e_spin e)"
| "getattr e f_fuel = VFloat (e_fuel e)"
| "getattr e f_throttle = VFloat (e_throttle e)"
| "getattr e f_landed_on = VStr (e_landed_on e)"
| "getattr e f_broken = VBool (e_broken e)"
| "getattr e f_artificial = VBool (e_artificial e)"
| "getattr e f_atmosphere_thickness = VFloat (e_atmosphere_thickness e)"
| "getattr e f_atmosphere_scaling = VFloat (e_atmosphere_scaling e)"

text \<open>
  Assigning a field of the message. The message checks the type of the value; the model
  admits a value of the field's own type and answers TypeError to any other.
\<close>

fun setattr :: "entity \<Rightarrow> field \<Rightarrow> val \<Rightarrow> error + entity" where
  "setattr e f_name (VStr v) = Inr (e\<lparr>e_name := v\<rparr>)"
| "setattr e f_x (VFloat v) = Inr (e\<lparr>e_x := v\<rparr>)"
| "setattr e f_y (VFloat v) = Inr (e\<lparr>e_y := v\<rparr>)"
| "setattr e f_vx (VFloat v) = Inr (e\<lparr>e_vx := v\<rparr>)"
| "setattr e f_vy (VFloat v) = Inr (e\<lparr>e_vy := v\<rparr>)"
| "setattr e f_r (VFloat v) = Inr (e\<lparr>e_r := v\<rparr>)"
| "setattr e f_mass (VFloat v) = Inr (e\<lparr>e_mass := v\<rparr>)"
| "setattr e f_heading (VFloat v) = Inr (e\<lparr>e_heading := v\<rparr>)"
| "setattr e f_spin (VFloat v) = Inr (e\<lparr>e_spin := v\<rparr>)"
| "setattr e f_fuel (VFloat v) = Inr (e\<lparr>e_fuel := v\<rparr>)"
| "setattr e f_throttle (VFloat v) = Inr (e\<lparr>e_throttle := v\<rparr>)"
| "setattr e f_landed_on (VStr v) = Inr (e\<lparr>e_landed_on := v\<rparr>)"
| "setattr e f_broken (VBool v) = Inr (e\<lparr>e_broken := v\<rparr>)"
| "setattr e f_artificial (VBool v) = Inr (e\<lparr>e_artificial := v\<rparr>)"
| "setattr e f_atmosphere_thickness (VFloat v) = Inr (e\<lparr>e_atmosphere_thickness := v\<rparr>)"
| "setattr e f_atmosphere_scaling (VFloat v) = Inr (e\<lparr>e_atmosphere_scaling := v\<rparr>)"
| "setattr e _ _ = Inl TypeError"

section \<open>The physics state\<close>

text \<open>
  The attributes \<^verbatim>\<open>_proto_state\<close>, \<^verbatim>\<open>_n\<close>, \<^verbatim>\<open>_entity_names\<close>, \<^verbatim>\<open>_array_rep\<close> and
  \<^verbatim>\<open>_entities_with_atmospheres\<close> of a \<^verbatim>\<open>PhysicsState\<close>, written \<open>self_...\<close>.
\<close>

record PhysicsState =
  self_proto_state :: PhysicalState
  self_n :: nat
  self_entity_names :: "string list"
  self_array_rep :: "float64 list"
  self_entities_with_atmospheres :: "nat list"

definition NO_INDEX :: int where
  "NO_INDEX = -1"

definition N_SINGULAR_ELEMENTS :: nat where
  "N_SINGULAR_ELEMENTS = 2"

definition SRB_TIME_INDEX :: int where
  "SRB_TIME_INDEX = -2"

definition TIME_ACC_INDEX :: int where
  "TIME_ACC_INDEX = -1"

text \<open>The lookup \<^verbatim>\<open>_FIELD_ORDERING[field_name]\<close> of a dict: a missing key is a KeyError.\<close>

definition FIELD_ORDERING_get :: "field \<Rightarrow> error + nat" where
  "FIELD_ORDERING_get f = (case map_of FIELD_ORDERING f of
                             None \<Rightarrow> Inl KeyError
                           | Some field_n \<Rightarrow> Inr field_n)"

text \<open>
  \<^verbatim>\<open>_name_to_index\<close> reads nothing of the state but \<^verbatim>\<open>_entity_names\<close>, and \<^verbatim>\<open>__init__\<close>
  calls it before the vector exists, so it takes the name list. The ValueError of
  \<^verbatim>\<open>list.index\<close> is turned into the NoEntityError with its message; the AssertionError of
  \<^verbatim>\<open>assert name is not None\<close> is not caught.
\<close>

definition name_to_index :: "string list \<Rightarrow> string option \<Rightarrow> error + int" where
  "name_to_index names name =
     (case name of
        None \<Rightarrow> Inl AssertionError
      | Some nm \<Rightarrow>
          if nm \<noteq> [] then
            (case list_index names nm of
               None \<Rightarrow> Inl (NoEntityError (nm @ '' not in entity list''))
             | Some k \<Rightarrow> Inr (int k))
          else Inr NO_INDEX)"

definition y_component :: "PhysicsState \<Rightarrow> field \<Rightarrow> error + float64 list" where
  "y_component s field_name =
     (case FIELD_ORDERING_get field_name of
        Inl e \<Rightarrow> Inl e
      | Inr field_n \<Rightarrow>
          Inr (py_slice (self_array_rep s) (field_n * self_n s) ((field_n + 1) * self_n s)))"

definition y0 :: "PhysicsState \<Rightarrow> float64 list" where
  "y0 s = self_array_rep s"

section \<open>The entity view\<close>

text \<open>
  An \<^verbatim>\<open>_EntityView\<close> is the pair of its creator and its index. The accessors below are the
  closures of the module-level loop; \<open>s\<close> is \<^verbatim>\<open>self._creator\<close> and \<open>i\<close> is
  \<^verbatim>\<open>self._index\<close>. A setter returns the state after the call together with the exception
  it raised, if any, so that what a failed write has already stored stays visible.
\<close>

definition entity_view_unchanging_fget :: "PhysicsState \<Rightarrow> int \<Rightarrow> field \<Rightarrow> error + val" where
  "entity_view_unchanging_fget s i name =
     (case py_get (entities (self_proto_state s)) i of
        Inl e \<Rightarrow> Inl e
      | Inr ent \<Rightarrow> Inr (getattr ent name))"

definition entity_view_unchanging_fset ::
  "PhysicsState \<Rightarrow> int \<Rightarrow> val \<Rightarrow> field \<Rightarrow> PhysicsState \<times> error option" where
  "entity_view_unchanging_fset s i v name =
     (case py_get (entities (self_proto_state s)) i of
        Inl e \<Rightarrow> (s, Some e)
      | Inr ent \<Rightarrow>
          (case setattr ent name v of
             Inl e \<Rightarrow> (s, Some e)
           | Inr ent' \<Rightarrow>
               (case py_set (entities (self_proto_state s)) i ent' of
                  Inl e \<Rightarrow> (s, Some e)
                | Inr es \<Rightarrow>
                    (s\<lparr>self_proto_state := (self_proto_state s)\<lparr>entities := es\<rparr>\<rparr>, None))))"

definition entity_view_mutable_fget_float :: "PhysicsState \<Rightarrow> int \<Rightarrow> nat \<Rightarrow> error + float64" where
  "entity_view_mutable_fget_float s i field_n =
     py_get (self_array_rep s) (int (self_n s) * int field_n + i)"

definition entity_view_mutable_fget_bool :: "PhysicsState \<Rightarrow> int \<Rightarrow> nat \<Rightarrow> error + bool" where
  "entity_view_mutable_fget_bool s i field_n =
     (case py_get (self_array_rep s) (int (self_n s) * int field_n + i) of
        Inl e \<Rightarrow> Inl e
      | Inr v \<Rightarrow> Inr (v \<noteq> Finite 0))"

text \<open>The setter of a float field and the setter of a bool field are the same code.\<close>

definition entity_view_mutable_fset ::
  "PhysicsState \<Rightarrow> int \<Rightarrow> val \<Rightarrow> nat \<Rightarrow> PhysicsState \<times> error option" where
  "entity_view_mutable_fset s i v field_n =
     (case to_float v of
        Inl e \<Rightarrow> (s, Some e)
      | Inr x \<Rightarrow>
          (case py_set (self_array_rep s) (int (self_n s) * int field_n + i) x of
             Inl e \<Rightarrow> (s, Some e)
           | Inr a \<Rightarrow> (s\<lparr>self_array_rep := a\<rparr>, None)))"

definition entity_view_mutable_fget_landed_on ::
  "PhysicsState \<Rightarrow> int \<Rightarrow> nat \<Rightarrow> error + string" where
  "entity_view_mutable_fget_landed_on s i field_n =
     (case py_get (self_array_rep s) (int (self_n s) * int field_n + i) of
        Inl e \<Rightarrow> Inl e
      | Inr v \<Rightarrow>
          (case py_int v of
             Inl e \<Rightarrow> Inl e
           | Inr entity_index \<Rightarrow>
               if entity_index = NO_INDEX then Inr []
               else py_get (self_entity_names s) entity_index))"

text \<open>
  The right-hand side \<^verbatim>\<open>self._creator._name_to_index(val)\<close> is evaluated before the store,
  so a name that does not resolve raises before the vector is touched.
\<close>

definition entity_view_mutable_fset_landed_on ::
  "PhysicsState \<Rightarrow> int \<Rightarrow> val \<Rightarrow> nat \<Rightarrow> PhysicsState \<times> error option" where
  "entity_view_mutable_fset_landed_on s i v field_n =
     (case v of
        VStr nm \<Rightarrow>
          (case name_to_index (self_entity_names s) (Some nm) of
             Inl e \<Rightarrow> (s, Some e)
           | Inr k \<Rightarrow>
               (case py_set (self_array_rep s) (int (self_n s) * int field_n + i)
                       (Finite (of_int k)) of
                  Inl e \<Rightarrow> (s, Some e)
                | Inr a \<Rightarrow> (s\<lparr>self_array_rep := a\<rparr>, None)))
      | _ \<Rightarrow> (s, Some AssertionError))"

text \<open>
  The property the loop installs on \<^verbatim>\<open>_EntityView\<close> for a field: the proxy of the
  snapshot for an unchanging field, else the accessor chosen by the field's type.
\<close>

definition view_fget :: "PhysicsState \<Rightarrow> int \<Rightarrow> field \<Rightarrow> error + val" where
  "view_fget s i f =
     (if f \<in> set PER_ENTITY_UNCHANGING_FIELDS then entity_view_unchanging_fget s i f
      else
        (case FIELD_ORDERING_get f of
           Inl e \<Rightarrow> Inl e
         | Inr field_n \<Rightarrow>
             if cpp_type_of f \<in> {CPPTYPE_FLOAT, CPPTYPE_DOUBLE} then
               map_sum id VFloat (entity_view_mutable_fget_float s i field_n)
             else if cpp_type_of f = CPPTYPE_BOOL then
               map_sum id VBool (entity_view_mutable_fget_bool s i field_n)
             else if f = LANDED_ON then
               map_sum id VStr (entity_view_mutable_fget_landed_on s i field_n)
             else Inl NotImplementedError))"

definition view_fset :: "PhysicsState \<Rightarrow> int \<Rightarrow> field \<Rightarrow> val \<Rightarrow> PhysicsState \<times> error option" where
  "view_fset s i f v =
     (if f \<in> set PER_ENTITY_UNCHANGING_FIELDS then entity_view_unchanging_fset s i v f
      else
        (case FIELD_ORDERING_get f of
           Inl e \<Rightarrow> (s, Some e)
         | Inr field_n \<Rightarrow>
             if cpp_type_of f \<in> {CPPTYPE_FLOAT, CPPTYPE_DOUBLE} then
               entity_view_mutable_fset s i v field_n
             else if cpp_type_of f = CPPTYPE_BOOL then
               entity_view_mutable_fset s i v field_n
             else if f = LANDED_ON then
               entity_view_mutable_fset_landed_on s i v field_n
             else (s, Some NotImplementedError)))"

section \<open>Construction\<close>

text \<open>
  The body of the loop that fills a fresh vector: \<^verbatim>\<open>proto_value\<close>, the value of the field
  in the entity with the landed-on name translated to an index, is stored at
  \<^verbatim>\<open>self._n * field_n + entity_index\<close>.
\<close>

definition proto_value :: "string list \<Rightarrow> field \<Rightarrow> entity \<Rightarrow> error + float64" where
  "proto_value names field_name ent =
     (if field_name = LANDED_ON
      then map_sum id (\<lambda>k. Finite (of_int k)) (name_to_index names (Some (e_landed_on ent)))
      else to_float (getattr ent field_name))"

definition store_value ::
  "string list \<Rightarrow> nat \<Rightarrow> field \<Rightarrow> nat \<Rightarrow> float64 list \<Rightarrow> nat \<times> entity \<Rightarrow>
     error + float64 list" where
  "store_value names n field_name field_n y ie =
     (case ie of
        (entity_index, ent) \<Rightarrow>
          (case proto_value names field_name ent of
             Inl e \<Rightarrow> Inl e
           | Inr v \<Rightarrow> py_set y (int n * int field_n + int entity_index) v))"

definition fill_field ::
  "string list \<Rightarrow> nat \<Rightarrow> entity list \<Rightarrow> float64 list \<Rightarrow> field \<times> nat \<Rightarrow>
     error + float64 list" where
  "fill_field names n ents y item =
     (case item of
        (field_name, field_n) \<Rightarrow>
          foldM_err (store_value names n field_name field_n) y (enumerate 0 ents))"

text \<open>
  \<^verbatim>\<open>np.empty\<close> leaves the contents of the new vector open; the loops and the two stores
  after them write every slot, and the model starts from zeros.
\<close>

definition build_array :: "string list \<Rightarrow> PhysicalState \<Rightarrow> error + float64 list" where
  "build_array names proto_state =
     (let n = length (entities proto_state);
          y = replicate (n * length PER_ENTITY_MUTABLE_FIELDS + N_SINGULAR_ELEMENTS) (Finite 0)
      in case foldM_err (fill_field names n (entities proto_state)) y FIELD_ORDERING of
           Inl e \<Rightarrow> Inl e
         | Inr y1 \<Rightarrow>
             (case py_set y1 (-2) (srb_time proto_state) of
                Inl e \<Rightarrow> Inl e
              | Inr y2 \<Rightarrow> py_set y2 (-1) (time_acc proto_state)))"

text \<open>
  \<^verbatim>\<open>np.mod(self.Heading, 2 * np.pi, out=self.Heading)\<close>: the heading block is a view of
  the vector, and the result is written back through it.
\<close>

definition normalize_heading :: "PhysicsState \<Rightarrow> error + PhysicsState" where
  "normalize_heading s =
     (case y_component s f_heading of
        Inl e \<Rightarrow> Inl e
      | Inr Heading \<Rightarrow>
          (case FIELD_ORDERING_get f_heading of
             Inl e \<Rightarrow> Inl e
           | Inr field_n \<Rightarrow>
               Inr (s\<lparr>self_array_rep :=
                      slice_assign (self_array_rep s) (field_n * self_n s)
                        (map (\<lambda>h. np_mod h (2 * np_pi)) Heading)\<rparr>)))"

definition atmosphere_indices :: "entity list \<Rightarrow> nat list" where
  "atmosphere_indices ents =
     map fst (filter (\<lambda>(index, ent). e_atmosphere_scaling ent \<noteq> Finite 0 \<and>
                                      e_atmosphere_thickness ent \<noteq> Finite 0)
                     (enumerate 0 ents))"

text \<open>
  \<^verbatim>\<open>PhysicsState.__init__(y, proto_state)\<close>. A vector that is given is copied by
  \<^verbatim>\<open>astype\<close>, and its last two elements are read with the indices -2 and -1 before the
  assertions on its size run. The vector is one-dimensional by its type.
\<close>

definition PhysicsState_init ::
  "float64 list option \<Rightarrow> PhysicalState \<Rightarrow> error + PhysicsState" where
  "PhysicsState_init y proto_state =
     (let n = length (entities proto_state);
          names = map e_name (entities proto_state)
      in case (case y of
                 None \<Rightarrow>
                   (case build_array names proto_state of
                      Inl e \<Rightarrow> Inl e
                    | Inr a \<Rightarrow> Inr (a, proto_state))
               | Some a \<Rightarrow>
                   (case py_get a SRB_TIME_INDEX of
                      Inl e \<Rightarrow> Inl e
                    | Inr srb \<Rightarrow>
                        (case py_get a TIME_ACC_INDEX of
                           Inl e \<Rightarrow> Inl e
                         | Inr acc \<Rightarrow>
                             Inr (a, proto_state\<lparr>srb_time := srb, time_acc := acc\<rparr>)))) of
           Inl e \<Rightarrow> Inl e
         | Inr (array_rep, own_proto) \<Rightarrow>
             if (int (length array_rep) - int N_SINGULAR_ELEMENTS)
                  mod int (length PER_ENTITY_MUTABLE_FIELDS) \<noteq> 0
             then Inl AssertionError
             else if (int (length array_rep) - int N_SINGULAR_ELEMENTS)
                  div int (length PER_ENTITY_MUTABLE_FIELDS) \<noteq> int n
             then Inl AssertionError
             else
               (case normalize_heading
                       \<lparr>self_proto_state = own_proto, self_n = n, self_entity_names = names,
                        self_array_rep = array_rep, self_entities_with_atmospheres = []\<rparr> of
                  Inl e \<Rightarrow> Inl e
                | Inr s \<Rightarrow>
                    Inr (s\<lparr>self_entities_with_atmospheres :=
                             atmosphere_indices (entities own_proto)\<rparr>)))"

section \<open>Lookup, replacement and conversion\<close>

datatype key = ByName string | ByIndex int

text \<open>
  \<^verbatim>\<open>__getitem__\<close> returns the view \<^verbatim>\<open>_EntityView(self, i)\<close>; the result is its index. A name
  is looked up with \<^verbatim>\<open>self._entity_names.index\<close>, whose ValueError is not caught.
\<close>

definition getitem :: "PhysicsState \<Rightarrow> key \<Rightarrow> error + int" where
  "getitem s index =
     (case index of
        ByName nm \<Rightarrow>
          (case list_index (self_entity_names s) nm of
             None \<Rightarrow> Inl ValueError
           | Some k \<Rightarrow> Inr (int k))
      | ByIndex i \<Rightarrow> Inr i)"

text \<open>
  The ten fields of the tuple assignments in \<^verbatim>\<open>as_proto\<close> and \<^verbatim>\<open>__setitem__\<close>, in the order
  in which they are read and then assigned.
\<close>

definition assigned_fields :: "field list" where
  "assigned_fields =
     [f_x, f_y, f_vx, f_vy, f_heading, f_spin, f_fuel, f_throttle, f_landed_on, f_broken]"



text \<open>
  The value assigned by \<^verbatim>\<open>__setitem__\<close> is an \<^verbatim>\<open>Entity\<close> that wraps a message, or a view.
  \<^verbatim>\<open>PhysicsState\<close> defines no \<^verbatim>\<open>__eq__\<close>, so \<^verbatim>\<open>val._creator == self\<close> compares
  identities: the creator of a view is this state or another object.
\<close>

datatype creator = This | Other PhysicsState

datatype entity_arg = EntityRecord entity | EntityView creator int

definition arg_fget :: "PhysicsState \<Rightarrow> entity_arg \<Rightarrow> field \<Rightarrow> error + val" where
  "arg_fget s v f =
     (case v of
        EntityRecord e \<Rightarrow> Inr (getattr e f)
      | EntityView This j \<Rightarrow> view_fget s j f
      | EntityView (Other t) j \<Rightarrow> view_fget t j f)"

text \<open>A run of assignments: the first one that raises ends the run, the earlier stay done.\<close>

fun assign_all :: "PhysicsState \<Rightarrow> int \<Rightarrow> (field \<times> val) list \<Rightarrow> PhysicsState \<times> error option" where
  "assign_all s i [] = (s, None)"
| "assign_all s i ((f, v) # rest) =
     (case view_fset s i f v of
        (s', Some e) \<Rightarrow> (s', Some e)
      | (s', None) \<Rightarrow> assign_all s' i rest)"

text \<open>The test \<^verbatim>\<open>isinstance(val, _EntityView) and val._creator == self\<close>.\<close>

fun own_view :: "entity_arg \<Rightarrow> bool" where
  "own_view (EntityView This j) = True"
| "own_view _ = False"

definition setitem :: "PhysicsState \<Rightarrow> key \<Rightarrow> entity_arg \<Rightarrow> PhysicsState \<times> error option" where
  "setitem s index v =
     (if own_view v then (s, None)
      else
        (case getitem s index of
           Inl e \<Rightarrow> (s, Some e)
         | Inr i \<Rightarrow>
             (case mapM_err (arg_fget s v) assigned_fields of
                Inl e \<Rightarrow> (s, Some e)
              | Inr vals \<Rightarrow> assign_all s i (zip assigned_fields vals))))"

section \<open>The active craft\<close>

text \<open>
  Modelled from the spec: the names \<^verbatim>\<open>common.HABITAT\<close> and \<^verbatim>\<open>common.AYSE\<close> belong to the
  module \<^verbatim>\<open>orbitx.common\<close>, which is not among the sources; the spec names the two
  entities "Habitat" and "AYSE".
\<close>

definition HABITAT :: string where
  "HABITAT = ''Habitat''"

definition AYSE :: string where
  "AYSE = ''AYSE''"

definition craft :: "PhysicsState \<Rightarrow> error + string option" where
  "craft s =
     (if HABITAT \<notin> set (self_entity_names s) \<and> AYSE \<notin> set (self_entity_names s)
      then Inr None
      else if AYSE \<notin> set (self_entity_names s) then Inr (Some HABITAT)
      else
        (case name_to_index (self_entity_names s) (Some HABITAT) of
           Inl e \<Rightarrow> Inl e
         | Inr hab_index \<Rightarrow>
             (case name_to_index (self_entity_names s) (Some AYSE) of
                Inl e \<Rightarrow> Inl e
              | Inr ayse_index \<Rightarrow>
                  (case y_component s f_landed_on of
                     Inl e \<Rightarrow> Inl e
                   | Inr landed \<Rightarrow>
                       (case py_get landed hab_index of
                          Inl e \<Rightarrow> Inl e
                        | Inr v \<Rightarrow>
                            if v = Finite (of_int ayse_index) then Inr (Some AYSE)
                            else Inr (Some HABITAT))))))"

section \<open>Notions the statements use\<close>

text \<open>
  What the assertions of \<^verbatim>\<open>__init__\<close> establish: the vector holds one block of \<^verbatim>\<open>_n\<close>
  slots for each mutable field and the two trailing scalars, and \<^verbatim>\<open>_n\<close> counts the
  entities of the owned snapshot and the names of the name table. No operation of the
  class changes a length, so the shape holds for the lifetime of the state.
\<close>

definition shape_ok :: "PhysicsState \<Rightarrow> bool" where
  "shape_ok s \<longleftrightarrow>
     self_n s = length (entities (self_proto_state s)) \<and>
     length (self_entity_names s) = self_n s \<and>
     length (self_array_rep s) =
       self_n s * length PER_ENTITY_MUTABLE_FIELDS + N_SINGULAR_ELEMENTS"

text \<open>
  The heading of entity \<open>i\<close> as the constructor receives it: the field of the snapshot
  when no vector is given, else the slot of the heading block of the given vector.
\<close>

definition ingested_heading :: "float64 list option \<Rightarrow> PhysicalState \<Rightarrow> nat \<Rightarrow> float64" where
  "ingested_heading y S i =
     (case y of
        None \<Rightarrow> e_heading (entities S ! i)
      | Some a \<Rightarrow> a ! (4 * length (entities S) + i))"





text \<open>
  The vector after the ten stores of \<^verbatim>\<open>__setitem__\<close> at index \<open>i\<close>, the \<open>k\<close>-th of them
  storing \<open>rs ! k\<close> at slot \<open>k * n + i\<close>.
\<close>

definition assigned_array :: "PhysicsState \<Rightarrow> nat \<Rightarrow> float64 list \<Rightarrow> float64 list" where
  "assigned_array s i rs =
     (self_array_rep s)
       [0 * self_n s + i := rs ! 0, 1 * self_n s + i := rs ! 1, 2 * self_n s + i := rs ! 2,
        3 * self_n s + i := rs ! 3, 4 * self_n s + i := rs ! 4, 5 * self_n s + i := rs ! 5,
        6 * self_n s + i := rs ! 6, 7 * self_n s + i := rs ! 7, 8 * self_n s + i := rs ! 8,
        9 * self_n s + i := rs ! 9]"

text \<open>
  The vector after the first eight stores of \<^verbatim>\<open>__setitem__\<close> at index \<open>i\<close>, those of the
  fields \<^verbatim>\<open>x\<close> to \<^verbatim>\<open>throttle\<close>.
\<close>

definition partly_assigned_array :: "PhysicsState \<Rightarrow> nat \<Rightarrow> float64 list \<Rightarrow> float64 list" where
  "partly_assigned_array s i rs =
     (self_array_rep s)
       [0 * self_n s + i := rs ! 0, 1 * self_n s + i := rs ! 1, 2 * self_n s + i := rs ! 2,
        3 * self_n s + i := rs ! 3, 4 * self_n s + i := rs ! 4, 5 * self_n s + i := rs ! 5,
        6 * self_n s + i := rs ! 6, 7 * self_n s + i := rs ! 7]"

section \<open>Scenarios\<close>

text \<open>
  The two-entity scenario of the spec: "Habitat" and "AYSE", the Habitat landed on AYSE
  and ingested with a heading of 7.5 rad. \<open>docked_snapshot\<close> is the structured form,
  \<open>docked_buffer\<close> the vector as an integrator would hand it over, and \<open>docked_state\<close> the
  state the constructor makes of either (lemmas \<open>docked_state_init\<close> and
  \<open>docked_state_from_buffer\<close>).
\<close>

definition body :: "string \<Rightarrow> string \<Rightarrow> float64 \<Rightarrow> entity" where
  "body nm on h =
     \<lparr>e_name = nm, e_x = Finite 1, e_y = Finite 2, e_vx = Finite 3, e_vy = Finite 4,
      e_r = Finite 5, e_mass = Finite 6, e_heading = h, e_spin = Finite 0, e_fuel = Finite 8,
      e_throttle = Finite 9, e_landed_on = on, e_broken = False, e_artificial = True,
      e_atmosphere_thickness = Finite 0, e_atmosphere_scaling = Finite 0\<rparr>"

definition snapshot_of :: "entity list \<Rightarrow> PhysicalState" where
  "snapshot_of es =
     \<lparr>entities = es, timestamp = Finite 0, srb_time = Finite 30, time_acc = Finite 1,
      parachute_deployed = False, reference = ''Earth'', target = ''AYSE'', navmode = 0\<rparr>"

definition docked_snapshot :: PhysicalState where
  "docked_snapshot = snapshot_of [body HABITAT AYSE (Finite (15 / 2)), body AYSE [] (Finite 0)]"


definition docked_state :: PhysicsState where
  "docked_state =
     \<lparr>self_proto_state = docked_snapshot, self_n = 2, self_entity_names = [HABITAT, AYSE],
      self_array_rep =
        map Finite
          [1, 1, 2, 2, 3, 3, 4, 4, 15 / 2 - 2 * np_pi, 0, 0, 0, 8, 8, 9, 9, 1, -1, 0, 0,
           30, 1],
      self_entities_with_atmospheres = []\<rparr>"

text \<open>The scenario with "AYSE" alone, and the state built from it (\<open>ayse_only_state_init\<close>).\<close>

definition ayse_only_snapshot :: PhysicalState where
  "ayse_only_snapshot = snapshot_of [body AYSE [] (Finite 0)]"

definition ayse_only_state :: PhysicsState where
  "ayse_only_state =
     \<lparr>self_proto_state = ayse_only_snapshot, self_n = 1, self_entity_names = [AYSE],
      self_array_rep = map Finite [1, 2, 3, 4, 0, 0, 8, 9, -1, 0, 30, 1],
      self_entities_with_atmospheres = []\<rparr>"

text \<open>
  A snapshot whose Habitat has the heading \<open>- 2 ^ -67\<close>, a double just below zero, and
  whose AYSE has the heading NaN; \<open>drifting_state\<close> is the state the constructor makes of
  it (\<open>drifting_state_init\<close>), and \<open>drifting_state_rebuilt\<close> the state it makes of the
  vector of \<open>drifting_state\<close> and the same snapshot (\<open>drifting_state_rebuild\<close>).
\<close>

definition drifting_snapshot :: PhysicalState where
  "drifting_snapshot = snapshot_of [body HABITAT [] (Finite (- (1 / 2 ^ 67))), body AYSE [] NaN]"

definition drifting_state :: PhysicsState where
  "drifting_state =
     \<lparr>self_proto_state = drifting_snapshot, self_n = 2, self_entity_names = [HABITAT, AYSE],
      self_array_rep =
        map Finite [1, 1, 2, 2, 3, 3, 4, 4] @ [Finite (2 * np_pi), NaN] @
        map Finite [0, 0, 8, 8, 9, 9, -1, -1, 0, 0, 30, 1],
      self_entities_with_atmospheres = []\<rparr>"

definition drifting_state_rebuilt :: PhysicsState where
  "drifting_state_rebuilt =
     \<lparr>self_proto_state = drifting_snapshot, self_n = 2, self_entity_names = [HABITAT, AYSE],
      self_array_rep =
        map Finite [1, 1, 2, 2, 3, 3, 4, 4] @ [Finite 0, NaN] @
        map Finite [0, 0, 8, 8, 9, 9, -1, -1, 0, 0, 30, 1],
      self_entities_with_atmospheres = []\<rparr>"

text \<open>An entity record that differs from the Habitat of the scenario in its mass.\<close>

definition heavy_habitat :: entity where
  "heavy_habitat = (body HABITAT [] (Finite 1))\<lparr>e_mass := Finite 99\<rparr>"

text \<open>
  An entity record whose landed-on name, "Earth", is not the name of an entity of the
  scenario, and which differs from the Habitat of the scenario in its position, its
  heading and its broken flag as well.
\<close>

definition stray_habitat :: entity where
  "stray_habitat =
     (body HABITAT ''Earth'' (Finite 1))\<lparr>e_x := Finite 100, e_broken := True\<rparr>"

section \<open>Facts about the schema and the containers\<close>

lemma mutable_fields_eq:
  "PER_ENTITY_MUTABLE_FIELDS =
     [f_x, f_y, f_vx, f_vy, f_heading, f_spin, f_fuel, f_throttle, f_landed_on, f_broken]"
  by (simp add: PER_ENTITY_MUTABLE_FIELDS_def PER_ENTITY_UNCHANGING_FIELDS_def DESCRIPTOR_fields_def)

lemma length_mutable_fields: "length PER_ENTITY_MUTABLE_FIELDS = 10"
  by (simp add: mutable_fields_eq)

lemma field_ordering_eq:
  "FIELD_ORDERING =
     [(f_x, 0), (f_y, 1), (f_vx, 2), (f_vy, 3), (f_heading, 4), (f_spin, 5), (f_fuel, 6),
      (f_throttle, 7), (f_landed_on, 8), (f_broken, 9)]"
  by (simp add: FIELD_ORDERING_def mutable_fields_eq upt_rec)

lemma field_ordering_get_cases:
  "FIELD_ORDERING_get f =
     (case f of f_x \<Rightarrow> Inr 0 | f_y \<Rightarrow> Inr 1 | f_vx \<Rightarrow> Inr 2 | f_vy \<Rightarrow> Inr 3 | f_heading \<Rightarrow> Inr 4
        | f_spin \<Rightarrow> Inr 5 | f_fuel \<Rightarrow> Inr 6 | f_throttle \<Rightarrow> Inr 7 | f_landed_on \<Rightarrow> Inr 8
        | f_broken \<Rightarrow> Inr 9 | _ \<Rightarrow> Inl KeyError)"
  by (cases f) (simp_all add: FIELD_ORDERING_get_def field_ordering_eq)

lemma field_ordering_get_bound: "FIELD_ORDERING_get f = Inr k \<Longrightarrow> k < 10"
  by (cases f) (auto simp: field_ordering_get_cases)

lemma py_index_nat: "i < len \<Longrightarrow> py_index len (int i) = Some i"
  by (simp add: py_index_def)

lemma py_get_nat: "i < length xs \<Longrightarrow> py_get xs (int i) = Inr (xs ! i)"
  by (simp add: py_get_def py_index_nat)

lemma py_set_nat: "i < length xs \<Longrightarrow> py_set xs (int i) v = Inr (xs[i := v])"
  by (simp add: py_set_def py_index_nat)

lemma slot_int: "int n * int k + int i = int (k * n + i)"
  by (simp add: mult.commute)

lemma slot_in_block:
  fixes i n k :: nat
  assumes "i < n" "k < 10"
  shows "k * n + i < n * 10 + 2"
proof -
  have "k * n + i < k * n + n" using assms by simp
  also have "\<dots> = (k + 1) * n" by simp
  also have "\<dots> \<le> 10 * n" using assms by (intro mult_le_mono1) simp
  finally show ?thesis by simp
qed

lemma slot_lt_length:
  "shape_ok s \<Longrightarrow> i < self_n s \<Longrightarrow> k < 10 \<Longrightarrow> k * self_n s + i < length (self_array_rep s)"
  using slot_in_block[of i "self_n s" k]
  by (simp add: shape_ok_def length_mutable_fields N_SINGULAR_ELEMENTS_def)

lemma slot_get:
  "shape_ok s \<Longrightarrow> i < self_n s \<Longrightarrow> k < 10 \<Longrightarrow>
   py_get (self_array_rep s) (int (self_n s) * int k + int i) =
     Inr (self_array_rep s ! (k * self_n s + i))"
  by (simp only: slot_int py_get_nat slot_lt_length)

lemma slot_set:
  "shape_ok s \<Longrightarrow> i < self_n s \<Longrightarrow> k < 10 \<Longrightarrow>
   py_set (self_array_rep s) (int (self_n s) * int k + int i) v =
     Inr ((self_array_rep s)[k * self_n s + i := v])"
  by (simp only: slot_int py_set_nat slot_lt_length)

subsection \<open>The float and the unchanging accessors in a shaped state\<close>

lemma view_fget_float:
  assumes "shape_ok s" "i < self_n s" "FIELD_ORDERING_get f = Inr block"
    "cpp_type_of f \<in> {CPPTYPE_FLOAT, CPPTYPE_DOUBLE}"
  shows "view_fget s (int i) f = Inr (VFloat (self_array_rep s ! (block * self_n s + i)))"
proof -
  have "f \<notin> set PER_ENTITY_UNCHANGING_FIELDS"
    using assms(3) by (cases f) (auto simp: field_ordering_get_cases PER_ENTITY_UNCHANGING_FIELDS_def)
  then show ?thesis
    using assms slot_get[OF assms(1,2) field_ordering_get_bound[OF assms(3)]]
    by (simp add: view_fget_def entity_view_mutable_fget_float_def)
qed

lemma view_fset_float:
  assumes "shape_ok s" "i < self_n s" "FIELD_ORDERING_get f = Inr block"
    "cpp_type_of f \<in> {CPPTYPE_FLOAT, CPPTYPE_DOUBLE}"
  shows "view_fset s (int i) f (VFloat v) =
           (s\<lparr>self_array_rep := (self_array_rep s)[block * self_n s + i := v]\<rparr>, None)"
proof -
  have "f \<notin> set PER_ENTITY_UNCHANGING_FIELDS"
    using assms(3) by (cases f) (auto simp: field_ordering_get_cases PER_ENTITY_UNCHANGING_FIELDS_def)
  then show ?thesis
    using assms slot_set[OF assms(1,2) field_ordering_get_bound[OF assms(3)]]
    by (simp add: view_fset_def entity_view_mutable_fset_def)
qed

lemma view_fget_unchanging:
  assumes "shape_ok s" "i < self_n s" "f \<in> set PER_ENTITY_UNCHANGING_FIELDS"
  shows "view_fget s (int i) f = Inr (getattr (entities (self_proto_state s) ! i) f)"
  using assms by (simp add: view_fget_def entity_view_unchanging_fget_def py_get_nat shape_ok_def)

lemma view_fset_unchanging:
  assumes "shape_ok s" "i < self_n s" "f \<in> set PER_ENTITY_UNCHANGING_FIELDS"
    "setattr (entities (self_proto_state s) ! i) f w = Inr e'"
  shows "view_fset s (int i) f w =
           (s\<lparr>self_proto_state :=
                (self_proto_state s)\<lparr>entities := (entities (self_proto_state s))[i := e']\<rparr>\<rparr>, None)"
  using assms
  by (simp add: view_fset_def entity_view_unchanging_fset_def py_get_nat py_set_nat shape_ok_def)

subsection \<open>Filling the vector\<close>

lemma mapM_err_length: "mapM_err f xs = Inr ys \<Longrightarrow> length ys = length xs"
  by (induction xs arbitrary: ys) (auto split: sum.splits)

lemma mapM_err_total: "(\<And>x. x \<in> set xs \<Longrightarrow> f x = Inr (g x)) \<Longrightarrow> mapM_err f xs = Inr (map g xs)"
  by (induction xs) auto

lemma slice_assign_append:
  "length old = length vs \<Longrightarrow> slice_assign (pre @ old @ post) (length pre) vs = pre @ vs @ post"
  by (simp add: slice_assign_def)

lemma slice_assign_Cons:
  assumes "lo < length y"
  shows "slice_assign (y[lo := v]) (Suc lo) vs = slice_assign y lo (v # vs)"
proof -
  have "take (Suc lo) (y[lo := v]) = take lo y @ [v]"
    using assms by (simp add: take_Suc_conv_app_nth)
  then show ?thesis
    by (simp add: slice_assign_def)
qed

lemma store_values_eq:
  assumes "k * n + j + length es \<le> length y"
  shows "foldM_err (store_value names n f k) y (enumerate j es) =
           (case mapM_err (proto_value names f) es of
              Inl e \<Rightarrow> Inl e
            | Inr vs \<Rightarrow> Inr (slice_assign y (k * n + j) vs))"
  using assms
proof (induction es arbitrary: j y)
  case Nil
  then show ?case by (simp add: slice_assign_def)
next
  case (Cons e es)
  show ?case
  proof (cases "proto_value names f e")
    case (Inl err)
    then show ?thesis by (simp add: store_value_def)
  next
    case (Inr v)
    have lt: "k * n + j < length y" using Cons.prems by simp
    have "py_set y (int n * int k + int j) v = Inr (y[k * n + j := v])"
      by (simp only: slot_int py_set_nat[OF lt])
    then have st: "store_value names n f k y (j, e) = Inr (y[k * n + j := v])"
      using Inr by (simp add: store_value_def)
    have "foldM_err (store_value names n f k) (y[k * n + j := v]) (enumerate (Suc j) es) =
           (case mapM_err (proto_value names f) es of
              Inl e \<Rightarrow> Inl e
            | Inr vs \<Rightarrow> Inr (slice_assign (y[k * n + j := v]) (k * n + Suc j) vs))"
      using Cons.prems by (intro Cons.IH) simp
    then show ?thesis
      using Inr st lt by (simp add: slice_assign_Cons split: sum.splits)
  qed
qed

lemma fill_fields_eq:
  assumes "length pre = k0 * n" "length es = n" "length rest = length fo * n"
    "map snd fo = [k0 ..< k0 + length fo]"
  shows "foldM_err (fill_field names n es) (pre @ rest @ post) fo =
           (case mapM_err (\<lambda>(f, k). mapM_err (proto_value names f) es) fo of
              Inl e \<Rightarrow> Inl e
            | Inr blocks \<Rightarrow> Inr (pre @ concat blocks @ post))"
  using assms
proof (induction fo arbitrary: pre rest k0)
  case Nil
  then show ?case by simp
next
  case (Cons item fo)
  obtain f k where item: "item = (f, k)" by (cases item)
  have k: "k = k0" and rest_fo: "map snd fo = [Suc k0 ..< Suc k0 + length fo]"
    using Cons.prems(4) by (simp_all add: item upt_rec)
  define old where "old = take n rest"
  define rest' where "rest' = drop n rest"
  have rest: "rest = old @ rest'" and lo: "length old = n" and lr: "length rest' = length fo * n"
    using Cons.prems(3) by (simp_all add: old_def rest'_def)
  have bound: "k * n + 0 + length es \<le> length (pre @ rest @ post)"
    using Cons.prems(1,2,3) by (simp add: k)
  show ?case
  proof (cases "mapM_err (proto_value names f) es")
    case (Inl err)
    then show ?thesis
      using store_values_eq[OF bound, of names f] by (simp add: item fill_field_def)
  next
    case (Inr vs)
    have lv: "length vs = n" using mapM_err_length[OF Inr] Cons.prems(2) by simp
    have "slice_assign (pre @ rest @ post) (k * n + 0) vs = pre @ vs @ rest' @ post"
      using slice_assign_append[of old vs pre "rest' @ post"] lo lv Cons.prems(1)
      by (simp add: rest k)
    then have step: "fill_field names n es (pre @ rest @ post) item = Inr ((pre @ vs) @ rest' @ post)"
      using store_values_eq[OF bound, of names f] Inr by (simp add: item fill_field_def)
    have "foldM_err (fill_field names n es) ((pre @ vs) @ rest' @ post) fo =
           (case mapM_err (\<lambda>(f, k). mapM_err (proto_value names f) es) fo of
              Inl e \<Rightarrow> Inl e
            | Inr blocks \<Rightarrow> Inr ((pre @ vs) @ concat blocks @ post))"
      using Cons.prems(1,2) lv lr rest_fo by (intro Cons.IH[where ?k0.0 = "Suc k0"]) simp_all
    then show ?thesis
      using step Inr by (simp add: item split: sum.splits)
  qed
qed

lemma proto_value_simps:
  "proto_value names f_x e = Inr (e_x e)"
  "proto_value names f_y e = Inr (e_y e)"
  "proto_value names f_vx e = Inr (e_vx e)"
  "proto_value names f_vy e = Inr (e_vy e)"
  "proto_value names f_heading e = Inr (e_heading e)"
  "proto_value names f_spin e = Inr (e_spin e)"
  "proto_value names f_fuel e = Inr (e_fuel e)"
  "proto_value names f_throttle e = Inr (e_throttle e)"
  "proto_value names f_broken e = Inr (Finite (if e_broken e then 1 else 0))"
  by (simp_all add: proto_value_def LANDED_ON_def)

lemma py_set_last_but_one: "py_set (xs @ [a, b]) (- 2) v = Inr (xs @ [v, b])"
  by (simp add: py_set_def py_index_def nat_add_distrib)

lemma py_set_last: "py_set (xs @ [a, b]) (- 1) v = Inr (xs @ [a, v])"
proof -
  have "(xs @ [a, b])[Suc (length xs) := v] = xs @ [a, v]"
    by (simp add: list_update_append)
  then show ?thesis
    by (simp add: py_set_def py_index_def nat_add_distrib)
qed

lemma build_array_eq:
  "build_array names S =
     (case mapM_err (proto_value names f_landed_on) (entities S) of
        Inl e \<Rightarrow> Inl e
      | Inr ls \<Rightarrow>
          Inr (map e_x (entities S) @ map e_y (entities S) @ map e_vx (entities S) @
               map e_vy (entities S) @ map e_heading (entities S) @ map e_spin (entities S) @
               map e_fuel (entities S) @ map e_throttle (entities S) @ ls @
               map (\<lambda>e. Finite (if e_broken e then 1 else 0)) (entities S) @
               [srb_time S, time_acc S]))"
proof -
  define es where "es = entities S"
  define n where "n = length es"
  have y: "replicate (n * length PER_ENTITY_MUTABLE_FIELDS + N_SINGULAR_ELEMENTS) (Finite 0) =
             [] @ replicate (length FIELD_ORDERING * n) (Finite 0) @ [Finite 0, Finite 0]"
    by (simp add: length_mutable_fields N_SINGULAR_ELEMENTS_def field_ordering_eq
        replicate_add[symmetric] mult.commute flip: replicate_append_same)
  have fill: "foldM_err (fill_field names n es)
                ([] @ replicate (length FIELD_ORDERING * n) (Finite 0) @ [Finite 0, Finite 0])
                FIELD_ORDERING =
           (case mapM_err (\<lambda>(f, k). mapM_err (proto_value names f) es) FIELD_ORDERING of
              Inl e \<Rightarrow> Inl e
            | Inr blocks \<Rightarrow> Inr ([] @ concat blocks @ [Finite 0, Finite 0]))"
    by (rule fill_fields_eq[where ?k0.0 = 0]) (simp_all add: n_def field_ordering_eq upt_rec)
  have blocks: "mapM_err (\<lambda>(f, k). mapM_err (proto_value names f) es) FIELD_ORDERING =
           (case mapM_err (proto_value names f_landed_on) es of
              Inl e \<Rightarrow> Inl e
            | Inr ls \<Rightarrow>
                Inr [map e_x es, map e_y es, map e_vx es, map e_vy es, map e_heading es,
                     map e_spin es, map e_fuel es, map e_throttle es, ls,
                     map (\<lambda>e. Finite (if e_broken e then 1 else 0)) es])"
    by (simp add: field_ordering_eq mapM_err_total[where f = "proto_value names f" for f]
        proto_value_simps split: sum.splits)
  have tail: "(case py_set (xs @ [Finite 0, Finite 0]) (- 2) (srb_time S) of
                 Inl e \<Rightarrow> Inl e
               | Inr y2 \<Rightarrow> py_set y2 (- 1) (time_acc S)) = Inr (xs @ [srb_time S, time_acc S])"
    for xs :: "float64 list"
    by (simp add: py_set_last_but_one py_set_last)
  show ?thesis
  proof (cases "mapM_err (proto_value names f_landed_on) es")
    case (Inl err)
    then show ?thesis
      unfolding build_array_def Let_def es_def[symmetric] n_def[symmetric] y fill blocks
      by simp
  next
    case (Inr ls)
    show ?thesis
      unfolding build_array_def Let_def es_def[symmetric] n_def[symmetric] y fill blocks Inr
      using tail[of "concat [map e_x es, map e_y es, map e_vx es, map e_vy es, map e_heading es,
                     map e_spin es, map e_fuel es, map e_throttle es, ls,
                     map (\<lambda>e. Finite (if e_broken e then 1 else 0)) es]"]
      by simp
  qed
qed

subsection \<open>Normalizing the heading block\<close>

lemma normalize_heading_eq:
  "normalize_heading s =
     Inr (s\<lparr>self_array_rep :=
            slice_assign (self_array_rep s) (4 * self_n s)
              (map (\<lambda>h. np_mod h (2 * np_pi))
                 (py_slice (self_array_rep s) (4 * self_n s) (4 * self_n s + self_n s)))\<rparr>)"
  by (simp add: normalize_heading_def y_component_def field_ordering_get_cases)

lemma slice_map_length:
  "lo + w \<le> length a \<Longrightarrow> length (slice_assign a lo (map g (py_slice a lo (lo + w)))) = length a"
  by (simp add: slice_assign_def py_slice_def)

lemma slice_map_nth:
  assumes "lo + w \<le> length a" "p < length a"
  shows "slice_assign a lo (map g (py_slice a lo (lo + w))) ! p =
           (if lo \<le> p \<and> p < lo + w then g (a ! p) else a ! p)"
  using assms by (auto simp: slice_assign_def py_slice_def nth_append min_def)

lemma slice_map_blocks:
  "length A = lo \<Longrightarrow> length H = w \<Longrightarrow>
   slice_assign (A @ H @ Z) lo (map g (py_slice (A @ H @ Z) lo (lo + w))) = A @ map g H @ Z"
  by (simp add: slice_assign_def py_slice_def)

subsection \<open>The constructor in closed form\<close>

lemma size_asserts:
  "((int len - int N_SINGULAR_ELEMENTS) mod int (length PER_ENTITY_MUTABLE_FIELDS) = 0 \<and>
    (int len - int N_SINGULAR_ELEMENTS) div int (length PER_ENTITY_MUTABLE_FIELDS) = int n)
   \<longleftrightarrow> len = n * 10 + 2"
  unfolding length_mutable_fields N_SINGULAR_ELEMENTS_def
proof
  assume A: "(int len - int 2) mod int 10 = 0 \<and> (int len - int 2) div int 10 = int n"
  have "int len - int 2 = (int len - int 2) div int 10 * int 10 + (int len - int 2) mod int 10"
    by (simp only: div_mult_mod_eq)
  with A have "int len - int 2 = int n * int 10" by simp
  then show "len = n * 10 + 2" by linarith
next
  assume "len = n * 10 + 2"
  then show "(int len - int 2) mod int 10 = 0 \<and> (int len - int 2) div int 10 = int n"
    by simp
qed

lemma asserts_if:
  "(if (int len - int N_SINGULAR_ELEMENTS) mod int (length PER_ENTITY_MUTABLE_FIELDS) \<noteq> 0
    then Inl AssertionError
    else if (int len - int N_SINGULAR_ELEMENTS) div int (length PER_ENTITY_MUTABLE_FIELDS) \<noteq> int n
    then Inl AssertionError
    else X) = (if len = n * 10 + 2 then X else Inl AssertionError)"
  using size_asserts[of len n] by (cases "len = n * 10 + 2") auto

lemma init_None_eq:
  "PhysicsState_init None S =
     (case mapM_err (proto_value (map e_name (entities S)) f_landed_on) (entities S) of
        Inl e \<Rightarrow> Inl e
      | Inr ls \<Rightarrow>
          Inr \<lparr>self_proto_state = S, self_n = length (entities S),
               self_entity_names = map e_name (entities S),
               self_array_rep =
                 map e_x (entities S) @ map e_y (entities S) @ map e_vx (entities S) @
                 map e_vy (entities S) @
                 map (\<lambda>e. np_mod (e_heading e) (2 * np_pi)) (entities S) @
                 map e_spin (entities S) @ map e_fuel (entities S) @
                 map e_throttle (entities S) @ ls @
                 map (\<lambda>e. Finite (if e_broken e then 1 else 0)) (entities S) @
                 [srb_time S, time_acc S],
               self_entities_with_atmospheres = atmosphere_indices (entities S)\<rparr>)"
proof (cases "mapM_err (proto_value (map e_name (entities S)) f_landed_on) (entities S)")
  case (Inl err)
  then show ?thesis
    by (simp add: PhysicsState_init_def build_array_eq)
next
  case (Inr ls)
  let ?es = "entities S"
  have ll: "length ls = length ?es"
    using mapM_err_length[OF Inr] by simp
  define a where "a = map e_x ?es @ map e_y ?es @ map e_vx ?es @ map e_vy ?es @ map e_heading ?es @
      map e_spin ?es @ map e_fuel ?es @ map e_throttle ?es @ ls @
      map (\<lambda>e. Finite (if e_broken e then 1 else 0)) ?es @ [srb_time S, time_acc S]"
  have len: "length a = length ?es * 10 + 2"
    by (simp add: a_def ll)
  have ba: "build_array (map e_name ?es) S = Inr a"
    using Inr by (simp add: build_array_eq a_def)
  have norm: "slice_assign a (4 * length ?es)
                (map (\<lambda>h. np_mod h (2 * np_pi)) (py_slice a (4 * length ?es) (4 * length ?es + length ?es)))
              = (map e_x ?es @ map e_y ?es @ map e_vx ?es @ map e_vy ?es) @
                map (\<lambda>h. np_mod h (2 * np_pi)) (map e_heading ?es) @
                (map e_spin ?es @ map e_fuel ?es @ map e_throttle ?es @ ls @
                 map (\<lambda>e. Finite (if e_broken e then 1 else 0)) ?es @ [srb_time S, time_acc S])"
    unfolding a_def
    using slice_map_blocks[of "map e_x ?es @ map e_y ?es @ map e_vx ?es @ map e_vy ?es"
        "4 * length ?es" "map e_heading ?es" "length ?es"]
    by simp
  have "PhysicsState_init None S =
          Inr \<lparr>self_proto_state = S, self_n = length ?es, self_entity_names = map e_name ?es,
               self_array_rep = slice_assign a (4 * length ?es)
                (map (\<lambda>h. np_mod h (2 * np_pi)) (py_slice a (4 * length ?es) (4 * length ?es + length ?es))),
               self_entities_with_atmospheres = atmosphere_indices ?es\<rparr>"
    unfolding PhysicsState_init_def Let_def asserts_if
    by (simp add: ba len normalize_heading_eq)
  then show ?thesis
    unfolding norm using Inr by (simp add: o_def)
qed

lemma py_get_last_but_one: "2 \<le> length y \<Longrightarrow> py_get y (- 2) = Inr (y ! (length y - 2))"
  by (auto simp: py_get_def py_index_def nat_diff_distrib)

lemma py_get_last: "1 \<le> length y \<Longrightarrow> py_get y (- 1) = Inr (y ! (length y - 1))"
  by (auto simp: py_get_def py_index_def nat_diff_distrib)

lemma py_get_short: "length y < 2 \<Longrightarrow> py_get y (- 2) = Inl IndexError"
  by (auto simp: py_get_def py_index_def)

lemma init_Some_eq:
  "PhysicsState_init (Some y) S =
     (if length y < 2 then Inl IndexError
      else if length y \<noteq> length (entities S) * 10 + 2 then Inl AssertionError
      else
        Inr \<lparr>self_proto_state =
               S\<lparr>srb_time := y ! (length y - 2), time_acc := y ! (length y - 1)\<rparr>,
             self_n = length (entities S),
             self_entity_names = map e_name (entities S),
             self_array_rep =
               slice_assign y (4 * length (entities S))
                 (map (\<lambda>h. np_mod h (2 * np_pi))
                    (py_slice y (4 * length (entities S))
                       (4 * length (entities S) + length (entities S)))),
             self_entities_with_atmospheres = atmosphere_indices (entities S)\<rparr>)"
proof (cases "length y < 2")
  case True
  then show ?thesis
    by (simp add: PhysicsState_init_def SRB_TIME_INDEX_def py_get_short)
next
  case False
  then have g: "py_get y SRB_TIME_INDEX = Inr (y ! (length y - 2))"
    "py_get y TIME_ACC_INDEX = Inr (y ! (length y - 1))"
    by (simp_all add: SRB_TIME_INDEX_def TIME_ACC_INDEX_def py_get_last_but_one py_get_last)
  show ?thesis
    unfolding PhysicsState_init_def Let_def asserts_if
    using False by (simp add: g normalize_heading_eq)
qed

subsection \<open>The remainder in double precision\<close>

lemma two_np_pi_pos: "0 < 2 * np_pi"
  by (simp add: np_pi_def)

lemma npy_divmod_mod_zero: "npy_divmod_mod 0 b = 0"
  by (simp add: npy_divmod_mod_def fmod_def trunc_def)

lemma fmod_nonneg:
  assumes "0 < b" "0 \<le> a"
  shows "0 \<le> fmod a b \<and> fmod a b < b"
proof -
  have q: "0 \<le> a / b" using assms by simp
  have lo: "of_int \<lfloor>a / b\<rfloor> * b \<le> a" using assms(1) by (rule floor_divide_lower)
  have hi: "a < (of_int \<lfloor>a / b\<rfloor> + 1) * b" using assms(1) by (rule floor_divide_upper)
  show ?thesis
    using q lo hi by (simp add: fmod_def trunc_def algebra_simps)
qed

lemma fmod_neg:
  assumes "0 < b" "a < 0"
  shows "- b < fmod a b \<and> fmod a b \<le> 0"
proof -
  have "0 \<le> fmod (- a) b \<and> fmod (- a) b < b"
    using assms by (intro fmod_nonneg) simp_all
  moreover have "fmod a b = - fmod (- a) b"
  proof -
    have n: "a / b < 0" using assms by (simp add: divide_neg_pos)
    then have "trunc (a / b) = - trunc (- a / b)"
      by (simp add: trunc_def ceiling_def)
    then show ?thesis by (simp add: fmod_def algebra_simps)
  qed
  ultimately show ?thesis by simp
qed

lemma npy_divmod_mod_fix:
  assumes "0 \<le> r" "r < b"
  shows "npy_divmod_mod r b = r"
proof -
  have "\<lfloor>r / b\<rfloor> = 0" using assms by (intro floor_unique) simp_all
  then have "fmod r b = r" using assms by (simp add: fmod_def trunc_def)
  then show ?thesis using assms by (simp add: npy_divmod_mod_def Let_def)
qed

lemma npy_divmod_mod_self: "0 < b \<Longrightarrow> npy_divmod_mod b b = 0"
  by (simp add: npy_divmod_mod_def fmod_def trunc_def)

lemma float64_ulp_4_8:
  assumes "4 \<le> x" "x < 8"
  shows "float64_ulp x = 1 / 2 ^ 50"
proof -
  have "\<lfloor>log 2 x\<rfloor> = 2"
    using assms by (subst floor_log_eq_powr_iff) simp_all
  then have "float64_ulp x = 2 powr (- 50)"
    using assms by (simp add: float64_ulp_def)
  then show ?thesis
    by (simp add: powr_minus_divide)
qed

lemma float64_ulp_pos: "0 < float64_ulp x"
  by (simp add: float64_ulp_def)

lemma float64_ulp_below_4:
  assumes "0 < x" "x < 4"
  shows "float64_ulp x \<le> 1 / 2 ^ 51"
proof -
  have "log 2 x < 2"
    using assms by (subst log_less_iff) simp_all
  then have "\<lfloor>log 2 x\<rfloor> \<le> 1" by linarith
  then have "of_int (max \<lfloor>log 2 \<bar>x\<bar>\<rfloor> (- 1022)) - 52 \<le> (- 51 :: real)"
    using assms by simp
  then have "float64_ulp x \<le> 2 powr (- 51)"
    unfolding float64_ulp_def by (intro powr_mono) simp_all
  then show ?thesis by (simp add: powr_minus_divide)
qed

lemma round_half_even_le: "round_half_even q \<le> \<lfloor>q\<rfloor> + 1"
  by (simp add: round_half_even_def)

lemma round_half_even_upper: "of_int (round_half_even q) \<le> q + 1 / 2"
  by (auto simp: round_half_even_def) linarith+

lemma round_half_even_nonneg: "0 \<le> q \<Longrightarrow> 0 \<le> round_half_even q"
  by (simp add: round_half_even_def)

lemma two_np_pi_value: "2 * np_pi = 7074237752028440 / 2 ^ 50"
  by (simp add: np_pi_def)

lemma two_np_pi_bounds: "4 < 2 * np_pi" "2 * np_pi < 8"
  by (simp_all add: np_pi_def)

lemma float64_round_below_two_pi:
  assumes "0 < x" "x < 2 * np_pi"
  shows "0 \<le> float64_round x \<and> float64_round x \<le> 2 * np_pi"
proof -
  let ?u = "float64_ulp x"
  have u: "0 < ?u" by (rule float64_ulp_pos)
  have q: "0 \<le> x / ?u" using assms(1) u by simp
  have r: "float64_round x = of_int (round_half_even (x / ?u)) * ?u"
    using assms(1) by (simp add: float64_round_def)
  have lo: "0 \<le> float64_round x"
    unfolding r using round_half_even_nonneg[OF q] u by simp
  have hi: "float64_round x \<le> 2 * np_pi"
  proof (cases "x < 4")
    case True
    have "of_int (round_half_even (x / ?u)) * ?u \<le> (x / ?u + 1 / 2) * ?u"
      using round_half_even_upper[of "x / ?u"] u by (intro mult_right_mono) simp_all
    also have "\<dots> = x + ?u / 2" using u by (simp add: field_simps)
    also have "\<dots> \<le> 4 + (1 / 2 ^ 51) / 2"
      using True float64_ulp_below_4[OF assms(1) True] by simp
    also have "\<dots> \<le> 2 * np_pi" by (simp add: np_pi_def)
    finally show ?thesis unfolding r .
  next
    case False
    then have x: "4 \<le> x" "x < 8" using assms(2) two_np_pi_bounds(2) by simp_all
    have uv: "?u = 1 / 2 ^ 50" by (rule float64_ulp_4_8[OF x])
    have "x < 7074237752028440 / 2 ^ 50"
      using assms(2) two_np_pi_value by simp
    then have "x / ?u < 7074237752028440"
      unfolding uv by (simp add: field_simps)
    then have "\<lfloor>x / ?u\<rfloor> < 7074237752028440" by linarith
    then have "round_half_even (x / ?u) \<le> 7074237752028440"
      using round_half_even_le[of "x / ?u"] by linarith
    then have "(of_int (round_half_even (x / ?u)) :: real) \<le> 7074237752028440"
      by linarith
    then have "of_int (round_half_even (x / ?u)) * ?u \<le> 7074237752028440 * ?u"
      using u by (intro mult_right_mono) simp_all
    then show ?thesis unfolding r by (simp add: uv two_np_pi_value)
  qed
  show ?thesis using lo hi by simp
qed

lemma npy_divmod_mod_range: "0 \<le> npy_divmod_mod a (2 * np_pi) \<and> npy_divmod_mod a (2 * np_pi) \<le> 2 * np_pi"
proof (cases "0 \<le> a")
  case True
  have "0 \<le> fmod a (2 * np_pi) \<and> fmod a (2 * np_pi) < 2 * np_pi"
    using two_np_pi_pos True by (rule fmod_nonneg)
  then show ?thesis
    using two_np_pi_pos by (auto simp: npy_divmod_mod_def Let_def)
next
  case False
  then have m: "- (2 * np_pi) < fmod a (2 * np_pi) \<and> fmod a (2 * np_pi) \<le> 0"
    using two_np_pi_pos by (intro fmod_neg) simp_all
  show ?thesis
  proof (cases "fmod a (2 * np_pi) = 0")
    case True
    then show ?thesis using two_np_pi_pos by (simp add: npy_divmod_mod_def)
  next
    case False
    then have neg: "fmod a (2 * np_pi) < 0" using m by simp
    have "0 < fmod a (2 * np_pi) + 2 * np_pi" "fmod a (2 * np_pi) + 2 * np_pi < 2 * np_pi"
      using m neg by simp_all
    from float64_round_below_two_pi[OF this] show ?thesis
      using False neg two_np_pi_pos by (simp add: npy_divmod_mod_def Let_def)
  qed
qed

lemma npy_divmod_mod_again:
  "npy_divmod_mod (npy_divmod_mod a (2 * np_pi)) (2 * np_pi) =
     (if npy_divmod_mod a (2 * np_pi) = 2 * np_pi then 0 else npy_divmod_mod a (2 * np_pi))"
  using npy_divmod_mod_range[of a] npy_divmod_mod_self[OF two_np_pi_pos]
    npy_divmod_mod_fix[of "npy_divmod_mod a (2 * np_pi)" "2 * np_pi"]
  by auto

lemma float64_round_tiny: "float64_round (2 * np_pi - 1 / 2 ^ 67) = 2 * np_pi"
proof -
  let ?x = "2 * np_pi - 1 / 2 ^ 67 :: real"
  have x: "4 \<le> ?x" "?x < 8" by (simp_all add: np_pi_def)
  have uv: "float64_ulp ?x = 1 / 2 ^ 50" by (rule float64_ulp_4_8[OF x])
  have q: "?x / float64_ulp ?x = 7074237752028440 - 1 / 2 ^ 17"
    unfolding uv by (simp add: np_pi_def)
  have fl: "\<lfloor>7074237752028440 - 1 / 2 ^ 17 :: real\<rfloor> = 7074237752028439"
    by (rule floor_unique) simp_all
  have "round_half_even (7074237752028440 - 1 / 2 ^ 17) = 7074237752028440"
    unfolding round_half_even_def fl by simp
  moreover have "?x \<noteq> 0" using x by simp
  ultimately have "float64_round ?x = 7074237752028440 * float64_ulp ?x"
    unfolding float64_round_def q by simp
  then show ?thesis
    unfolding uv by (simp add: np_pi_def)
qed

lemma npy_divmod_mod_tiny_negative: "npy_divmod_mod (- (1 / 2 ^ 67)) (2 * np_pi) = 2 * np_pi"
proof -
  have "\<lceil>- (1 / 2 ^ 67) / (2 * np_pi)\<rceil> = 0"
    by (rule ceiling_unique) (simp_all add: np_pi_def)
  then have "fmod (- (1 / 2 ^ 67)) (2 * np_pi) = - (1 / 2 ^ 67)"
    by (simp add: fmod_def trunc_def np_pi_def)
  then show ?thesis
    using float64_round_tiny two_np_pi_pos by (simp add: npy_divmod_mod_def)
qed

lemma npy_divmod_mod_7_5: "npy_divmod_mod (15 / 2) (2 * np_pi) = 15 / 2 - 2 * np_pi"
proof -
  have "\<lfloor>(15 / 2) / (2 * np_pi)\<rfloor> = 1"
    by (rule floor_unique) (simp_all add: np_pi_def)
  moreover have "0 \<le> (15 / 2) / (2 * np_pi)" by (simp add: np_pi_def)
  ultimately have "trunc ((15 / 2) / (2 * np_pi)) = 1"
    unfolding trunc_def by simp
  then have "fmod (15 / 2) (2 * np_pi) = 15 / 2 - 2 * np_pi"
    unfolding fmod_def by simp
  moreover have "0 < 15 / 2 - 2 * np_pi" by (simp add: np_pi_def)
  ultimately show ?thesis using two_np_pi_pos by (simp add: npy_divmod_mod_def)
qed

lemma npy_divmod_mod_1e17:
  "npy_divmod_mod (10 ^ 17) (2 * np_pi) = 87234942603315 / 2 ^ 46"
proof -
  have "\<lfloor>10 ^ 17 / (2 * np_pi)\<rfloor> = 15915494309189534"
    by (rule floor_unique) (simp_all add: np_pi_def)
  moreover have "0 \<le> 10 ^ 17 / (2 * np_pi)" by (simp add: np_pi_def)
  ultimately have "trunc (10 ^ 17 / (2 * np_pi)) = 15915494309189534"
    unfolding trunc_def by simp
  then have "fmod (10 ^ 17) (2 * np_pi) = 87234942603315 / 2 ^ 46"
    unfolding fmod_def by (simp add: np_pi_def)
  then show ?thesis using two_np_pi_pos by (simp add: npy_divmod_mod_def)
qed

lemma np_mod_Finite: "np_mod (Finite a) (2 * np_pi) = Finite (npy_divmod_mod a (2 * np_pi))"
  using two_np_pi_pos by simp

declare np_mod.simps(1) [simp del]

lemma np_mod_not_finite: "x \<in> {PosInf, NegInf, NaN} \<Longrightarrow> np_mod x b = NaN"
  by auto


lemma np_mod_again:
  "np_mod (np_mod x (2 * np_pi)) (2 * np_pi) =
     (if np_mod x (2 * np_pi) = Finite (2 * np_pi) then Finite 0 else np_mod x (2 * np_pi))"
proof (cases x)
  case (Finite a)
  then show ?thesis
    by (simp only: np_mod_Finite npy_divmod_mod_again float64.inject if_distrib[of Finite])
next
  case PosInf
  then show ?thesis by simp
next
  case NegInf
  then show ?thesis by simp
next
  case NaN
  then show ?thesis by simp
qed

lemma np_mod_zero: "np_mod (Finite 0) (2 * np_pi) = Finite 0"
  by (simp only: np_mod_Finite npy_divmod_mod_zero)

lemma np_mod_7_5: "np_mod (Finite (15 / 2)) (2 * np_pi) = Finite (15 / 2 - 2 * np_pi)"
  by (simp only: np_mod_Finite npy_divmod_mod_7_5)

lemma np_mod_1e17: "np_mod (Finite (10 ^ 17)) (2 * np_pi) = Finite (87234942603315 / 2 ^ 46)"
  by (simp only: np_mod_Finite npy_divmod_mod_1e17)

lemma np_mod_tiny_negative: "np_mod (Finite (- (1 / 2 ^ 67))) (2 * np_pi) = Finite (2 * np_pi)"
  by (simp only: np_mod_Finite npy_divmod_mod_tiny_negative)

subsection \<open>The shape after construction\<close>

lemma init_shape_ok:
  assumes "PhysicsState_init y S = Inr s"
  shows "shape_ok s \<and> self_n s = length (entities S) \<and>
         self_entity_names s = map e_name (entities S) \<and>
         entities (self_proto_state s) = entities S"
proof (cases y)
  case None
  then obtain ls where ls: "mapM_err (proto_value (map e_name (entities S)) f_landed_on) (entities S) = Inr ls"
    using assms by (auto simp: init_None_eq split: sum.splits)
  have "length ls = length (entities S)" using mapM_err_length[OF ls] .
  then show ?thesis
    using assms None ls
    by (auto simp: init_None_eq shape_ok_def length_mutable_fields N_SINGULAR_ELEMENTS_def)
next
  case (Some a)
  have len: "length a = length (entities S) * 10 + 2"
    using assms Some by (auto simp: init_Some_eq split: if_splits)
  have "length (slice_assign a (4 * length (entities S))
                 (map (\<lambda>h. np_mod h (2 * np_pi))
                    (py_slice a (4 * length (entities S))
                       (4 * length (entities S) + length (entities S))))) = length a"
    using len by (intro slice_map_length) simp
  then show ?thesis
    using assms Some len
    by (auto simp: init_Some_eq shape_ok_def length_mutable_fields N_SINGULAR_ELEMENTS_def
        split: if_splits)
qed

subsection \<open>Constructing again from the vector of a state\<close>

lemma init_normal_form:
  assumes "PhysicsState_init y S = Inr s"
  obtains a0 where
    "length a0 = length (entities S) * 10 + 2"
    "s = \<lparr>self_proto_state =
            S\<lparr>srb_time := a0 ! (length a0 - 2), time_acc := a0 ! (length a0 - 1)\<rparr>,
          self_n = length (entities S),
          self_entity_names = map e_name (entities S),
          self_array_rep =
            slice_assign a0 (4 * length (entities S))
              (map (\<lambda>h. np_mod h (2 * np_pi))
                 (py_slice a0 (4 * length (entities S))
                    (4 * length (entities S) + length (entities S)))),
          self_entities_with_atmospheres = atmosphere_indices (entities S)\<rparr>"
    "case y of
       Some a \<Rightarrow> a0 = a
     | None \<Rightarrow> map e_heading (entities S) =
                 py_slice a0 (4 * length (entities S))
                   (4 * length (entities S) + length (entities S))"
proof (cases y)
  case (Some a)
  show ?thesis
    using assms Some by (intro that[of a]) (auto simp: init_Some_eq split: if_splits)
next
  case None
  let ?es = "entities S"
  obtain ls where ls: "mapM_err (proto_value (map e_name ?es) f_landed_on) ?es = Inr ls"
    using assms None by (auto simp: init_None_eq split: sum.splits)
  have ll: "length ls = length ?es" using mapM_err_length[OF ls] .
  let ?A = "map e_x ?es @ map e_y ?es @ map e_vx ?es @ map e_vy ?es"
  let ?Z = "map e_spin ?es @ map e_fuel ?es @ map e_throttle ?es @ ls @
            map (\<lambda>e. Finite (if e_broken e then 1 else 0)) ?es @ [srb_time S, time_acc S]"
  let ?a0 = "?A @ map e_heading ?es @ ?Z"
  have len: "length ?a0 = length ?es * 10 + 2" by (simp add: ll)
  have last2: "?a0 ! (length ?a0 - 2) = srb_time S" "?a0 ! (length ?a0 - 1) = time_acc S"
    by (simp_all add: nth_append ll)
  have norm: "slice_assign ?a0 (4 * length ?es)
                (map (\<lambda>h. np_mod h (2 * np_pi))
                   (py_slice ?a0 (4 * length ?es) (4 * length ?es + length ?es)))
              = ?A @ map (\<lambda>h. np_mod h (2 * np_pi)) (map e_heading ?es) @ ?Z"
    by (rule slice_map_blocks) simp_all
  have sl: "py_slice ?a0 (4 * length ?es) (4 * length ?es + length ?es) = map e_heading ?es"
    by (simp add: py_slice_def)
  show ?thesis
  proof (rule that[of ?a0])
    show "length ?a0 = length ?es * 10 + 2" by (rule len)
    show "s = \<lparr>self_proto_state =
            S\<lparr>srb_time := ?a0 ! (length ?a0 - 2), time_acc := ?a0 ! (length ?a0 - 1)\<rparr>,
          self_n = length ?es,
          self_entity_names = map e_name ?es,
          self_array_rep =
            slice_assign ?a0 (4 * length ?es)
              (map (\<lambda>h. np_mod h (2 * np_pi))
                 (py_slice ?a0 (4 * length ?es) (4 * length ?es + length ?es))),
          self_entities_with_atmospheres = atmosphere_indices ?es\<rparr>"
      unfolding norm last2 using assms None ls by (simp add: init_None_eq o_def)
    show "case y of
       Some a \<Rightarrow> ?a0 = a
     | None \<Rightarrow> map e_heading ?es =
                 py_slice ?a0 (4 * length ?es) (4 * length ?es + length ?es)"
      unfolding sl using None by simp
  qed
qed

lemma init_rebuild:
  assumes "PhysicsState_init y S = Inr s"
  shows "PhysicsState_init (Some (y0 s)) S =
           Inr (s\<lparr>self_array_rep :=
                    slice_assign (self_array_rep s) (4 * self_n s)
                      (map (\<lambda>h. np_mod h (2 * np_pi))
                         (py_slice (self_array_rep s) (4 * self_n s) (4 * self_n s + self_n s)))\<rparr>)"
proof -
  let ?n = "length (entities S)"
  let ?g = "\<lambda>h. np_mod h (2 * np_pi)"
  obtain a0 where len: "length a0 = ?n * 10 + 2"
    and s: "s = \<lparr>self_proto_state =
            S\<lparr>srb_time := a0 ! (length a0 - 2), time_acc := a0 ! (length a0 - 1)\<rparr>,
          self_n = ?n, self_entity_names = map e_name (entities S),
          self_array_rep = slice_assign a0 (4 * ?n) (map ?g (py_slice a0 (4 * ?n) (4 * ?n + ?n))),
          self_entities_with_atmospheres = atmosphere_indices (entities S)\<rparr>"
    using init_normal_form[OF assms] by metis
  let ?a = "slice_assign a0 (4 * ?n) (map ?g (py_slice a0 (4 * ?n) (4 * ?n + ?n)))"
  have bound: "4 * ?n + ?n \<le> length a0" using len by simp
  have la: "length ?a = length a0" using bound by (rule slice_map_length)
  have t1: "?a ! (length a0 - 2) = a0 ! (length a0 - 2)"
    using slice_map_nth[OF bound, of "length a0 - 2" ?g] len by simp
  have t2: "?a ! (length a0 - 1) = a0 ! (length a0 - 1)"
    using slice_map_nth[OF bound, of "length a0 - 1" ?g] len by simp
  have arr: "y0 s = ?a" "self_array_rep s = ?a" "self_n s = ?n"
    by (subst s, simp add: y0_def)+
  have "PhysicsState_init (Some ?a) S =
          Inr (s\<lparr>self_array_rep :=
                   slice_assign ?a (4 * ?n) (map ?g (py_slice ?a (4 * ?n) (4 * ?n + ?n)))\<rparr>)"
    unfolding init_Some_eq la t1 t2 using len by (subst s) simp
  then show ?thesis by (simp only: arr)
qed

subsection \<open>The scenario states are constructed states\<close>

lemma docked_state_init: "PhysicsState_init None docked_snapshot = Inr docked_state"
  by (simp add: init_None_eq docked_snapshot_def docked_state_def snapshot_of_def body_def
      proto_value_def LANDED_ON_def name_to_index_def HABITAT_def AYSE_def NO_INDEX_def
      atmosphere_indices_def np_mod_zero np_mod_7_5)

lemma docked_state_shape: "shape_ok docked_state"
  using init_shape_ok[OF docked_state_init] by simp

subsection \<open>The heading slot after construction\<close>

lemma py_slice_nth:
  "lo + w \<le> length a \<Longrightarrow> i < w \<Longrightarrow> py_slice a lo (lo + w) ! i = a ! (lo + i)"
  by (simp add: py_slice_def)

lemma py_slice_length: "lo + w \<le> length a \<Longrightarrow> length (py_slice a lo (lo + w)) = w"
  by (simp add: py_slice_def)

lemma init_heading_slot:
  assumes "PhysicsState_init y S = Inr s" "i < self_n s"
  shows "self_array_rep s ! (4 * self_n s + i) = np_mod (ingested_heading y S i) (2 * np_pi)"
proof -
  let ?n = "length (entities S)"
  let ?g = "\<lambda>h. np_mod h (2 * np_pi)"
  obtain a0 where len: "length a0 = ?n * 10 + 2"
    and s: "s = \<lparr>self_proto_state =
            S\<lparr>srb_time := a0 ! (length a0 - 2), time_acc := a0 ! (length a0 - 1)\<rparr>,
          self_n = ?n, self_entity_names = map e_name (entities S),
          self_array_rep = slice_assign a0 (4 * ?n) (map ?g (py_slice a0 (4 * ?n) (4 * ?n + ?n))),
          self_entities_with_atmospheres = atmosphere_indices (entities S)\<rparr>"
    and y: "case y of
       Some a \<Rightarrow> a0 = a
     | None \<Rightarrow> map e_heading (entities S) = py_slice a0 (4 * ?n) (4 * ?n + ?n)"
    using init_normal_form[OF assms(1)] by metis
  have n: "self_n s = ?n" by (subst s) simp
  have i: "i < ?n" using assms(2) n by simp
  have bound: "4 * ?n + ?n \<le> length a0" using len by simp
  have "self_array_rep s ! (4 * ?n + i) = ?g (a0 ! (4 * ?n + i))"
    using slice_map_nth[OF bound, of "4 * ?n + i" ?g] i len by (subst s) simp
  moreover have "a0 ! (4 * ?n + i) = ingested_heading y S i"
  proof (cases y)
    case None
    then have "map e_heading (entities S) ! i = py_slice a0 (4 * ?n) (4 * ?n + ?n) ! i"
      using y by simp
    then show ?thesis
      using i py_slice_nth[OF bound i] None by (simp add: ingested_heading_def)
  next
    case (Some a)
    then show ?thesis using y by (simp add: ingested_heading_def)
  qed
  ultimately show ?thesis by (simp add: n)
qed

lemma heading_block:
  "FIELD_ORDERING_get f_heading = Inr 4" "cpp_type_of f_heading \<in> {CPPTYPE_FLOAT, CPPTYPE_DOUBLE}"
  by (simp_all add: field_ordering_get_cases)

subsection \<open>Name resolution, and the landed-on and broken accessors\<close>

lemma mapM_err_nth:
  "mapM_err f xs = Inr ys \<Longrightarrow> i < length xs \<Longrightarrow> f (xs ! i) = Inr (ys ! i)"
proof (induction xs arbitrary: ys i)
  case Nil
  then show ?case by simp
next
  case (Cons x xs)
  then show ?case by (cases i) (auto split: sum.splits)
qed


lemma list_index_Some: "list_index xs a = Some j \<Longrightarrow> j < length xs \<and> xs ! j = a"
  by (induction xs arbitrary: j) (auto split: if_splits)

lemma list_index_None: "list_index xs a = None \<longleftrightarrow> a \<notin> set xs"
  by (induction xs) auto

lemma trunc_of_int: "trunc (of_int k) = k"
  by (simp add: trunc_def)

lemma py_int_of_int: "py_int (Finite (of_int k)) = Inr k"
  by (simp add: trunc_of_int)

lemma name_to_index_resolves:
  assumes "nm = [] \<or> nm \<in> set names"
  shows "\<exists>k. name_to_index names (Some nm) = Inr k \<and>
             (if k = NO_INDEX then Inr [] else py_get names k) = Inr nm"
proof (cases "nm = []")
  case True
  then show ?thesis by (simp add: name_to_index_def)
next
  case False
  then have "nm \<in> set names" using assms by simp
  then obtain j where j: "list_index names nm = Some j"
    using list_index_None[of names nm] by (cases "list_index names nm") auto
  have "j < length names" "names ! j = nm" using list_index_Some[OF j] by simp_all
  then show ?thesis
    using False j by (simp add: name_to_index_def NO_INDEX_def py_get_nat)
qed

lemma name_to_index_absent:
  assumes "nm \<noteq> []" "nm \<notin> set names"
  shows "name_to_index names (Some nm) = Inl (NoEntityError (nm @ '' not in entity list''))"
  using assms list_index_None[of names nm] by (simp add: name_to_index_def)

lemma view_fget_bool:
  assumes "shape_ok s" "i < self_n s"
  shows "view_fget s (int i) f_broken =
           Inr (VBool (self_array_rep s ! (9 * self_n s + i) \<noteq> Finite 0))"
  using slot_get[OF assms, of 9]
  by (simp add: view_fget_def PER_ENTITY_UNCHANGING_FIELDS_def field_ordering_get_cases
      entity_view_mutable_fget_bool_def)

lemma view_fget_landed_on:
  assumes "shape_ok s" "i < self_n s"
  shows "view_fget s (int i) f_landed_on =
           (case py_int (self_array_rep s ! (8 * self_n s + i)) of
              Inl e \<Rightarrow> Inl e
            | Inr k \<Rightarrow>
                if k = NO_INDEX then Inr (VStr [])
                else map_sum id VStr (py_get (self_entity_names s) k))"
  using slot_get[OF assms, of 8]
  by (simp add: view_fget_def PER_ENTITY_UNCHANGING_FIELDS_def field_ordering_get_cases
      entity_view_mutable_fget_landed_on_def LANDED_ON_def split: sum.splits)

subsection \<open>What the views of a freshly built state read\<close>

lemma blocks_nth:
  assumes "\<And>b. b \<in> set bs \<Longrightarrow> length b = n" "k < length bs" "i < n"
  shows "(concat bs @ post) ! (k * n + i) = bs ! k ! i"
  using assms
proof (induction bs arbitrary: k)
  case Nil
  then show ?case by simp
next
  case (Cons b bs)
  have lb: "length b = n" using Cons.prems(1) by simp
  show ?case
  proof (cases k)
    case 0
    then show ?thesis using lb Cons.prems(3) by (simp add: nth_append)
  next
    case (Suc k')
    have "(concat bs @ post) ! (k' * n + i) = bs ! k' ! i"
      using Cons.prems Suc by (intro Cons.IH) simp_all
    then show ?thesis using lb Suc by (simp add: nth_append)
  qed
qed

lemma init_None_slots:
  assumes "PhysicsState_init None S = Inr s" "i < length (entities S)"
  shows "self_array_rep s ! (0 * self_n s + i) = e_x (entities S ! i)"
    "self_array_rep s ! (1 * self_n s + i) = e_y (entities S ! i)"
    "self_array_rep s ! (2 * self_n s + i) = e_vx (entities S ! i)"
    "self_array_rep s ! (3 * self_n s + i) = e_vy (entities S ! i)"
    "self_array_rep s ! (4 * self_n s + i) = np_mod (e_heading (entities S ! i)) (2 * np_pi)"
    "self_array_rep s ! (5 * self_n s + i) = e_spin (entities S ! i)"
    "self_array_rep s ! (6 * self_n s + i) = e_fuel (entities S ! i)"
    "self_array_rep s ! (7 * self_n s + i) = e_throttle (entities S ! i)"
    "proto_value (map e_name (entities S)) f_landed_on (entities S ! i) =
       Inr (self_array_rep s ! (8 * self_n s + i))"
    "self_array_rep s ! (9 * self_n s + i) = Finite (if e_broken (entities S ! i) then 1 else 0)"
proof -
  let ?es = "entities S"
  let ?n = "length ?es"
  obtain ls where ls: "mapM_err (proto_value (map e_name ?es) f_landed_on) ?es = Inr ls"
    using assms(1) by (auto simp: init_None_eq split: sum.splits)
  have ll: "length ls = ?n" using mapM_err_length[OF ls] .
  let ?bs = "[map e_x ?es, map e_y ?es, map e_vx ?es, map e_vy ?es,
              map (\<lambda>e. np_mod (e_heading e) (2 * np_pi)) ?es, map e_spin ?es, map e_fuel ?es,
              map e_throttle ?es, ls, map (\<lambda>e. Finite (if e_broken e then 1 else 0)) ?es]"
  have arr: "self_array_rep s = concat ?bs @ [srb_time S, time_acc S]"
    using assms(1) ls by (auto simp: init_None_eq)
  have n: "self_n s = ?n"
    using assms(1) ls by (auto simp: init_None_eq)
  have slot: "self_array_rep s ! (k * ?n + i) = ?bs ! k ! i" if "k < 10" for k
    unfolding arr using that assms(2) ll by (intro blocks_nth) auto
  have l8: "proto_value (map e_name ?es) f_landed_on (?es ! i) = Inr (ls ! i)"
    using mapM_err_nth[OF ls assms(2)] .
  show "self_array_rep s ! (0 * self_n s + i) = e_x (entities S ! i)"
    using slot[of 0] assms(2) by (simp add: n)
  show "self_array_rep s ! (1 * self_n s + i) = e_y (entities S ! i)"
    using slot[of 1] assms(2) by (simp add: n)
  show "self_array_rep s ! (2 * self_n s + i) = e_vx (entities S ! i)"
    using slot[of 2] assms(2) by (simp add: n)
  show "self_array_rep s ! (3 * self_n s + i) = e_vy (entities S ! i)"
    using slot[of 3] assms(2) by (simp add: n)
  show "self_array_rep s ! (4 * self_n s + i) = np_mod (e_heading (entities S ! i)) (2 * np_pi)"
    using slot[of 4] assms(2) by (simp add: n)
  show "self_array_rep s ! (5 * self_n s + i) = e_spin (entities S ! i)"
    using slot[of 5] assms(2) by (simp add: n)
  show "self_array_rep s ! (6 * self_n s + i) = e_fuel (entities S ! i)"
    using slot[of 6] assms(2) by (simp add: n)
  show "self_array_rep s ! (7 * self_n s + i) = e_throttle (entities S ! i)"
    using slot[of 7] assms(2) by (simp add: n)
  show "proto_value (map e_name (entities S)) f_landed_on (entities S ! i) =
       Inr (self_array_rep s ! (8 * self_n s + i))"
    using slot[of 8] l8 by (simp add: n)
  show "self_array_rep s ! (9 * self_n s + i) = Finite (if e_broken (entities S ! i) then 1 else 0)"
    using slot[of 9] assms(2) by (simp add: n)
qed

lemma float_blocks:
  "FIELD_ORDERING_get f_x = Inr 0" "FIELD_ORDERING_get f_y = Inr 1"
  "FIELD_ORDERING_get f_vx = Inr 2" "FIELD_ORDERING_get f_vy = Inr 3"
  "FIELD_ORDERING_get f_heading = Inr 4" "FIELD_ORDERING_get f_spin = Inr 5"
  "FIELD_ORDERING_get f_fuel = Inr 6" "FIELD_ORDERING_get f_throttle = Inr 7"
  "FIELD_ORDERING_get f_landed_on = Inr 8" "FIELD_ORDERING_get f_broken = Inr 9"
  by (simp_all add: field_ordering_get_cases)

lemma init_None_reads:
  assumes "PhysicsState_init None S = Inr s" "i < length (entities S)"
    "e_landed_on (entities S ! i) = [] \<or>
     e_landed_on (entities S ! i) \<in> set (map e_name (entities S))"
  shows "mapM_err (view_fget s (int i)) assigned_fields =
           Inr [VFloat (e_x (entities S ! i)), VFloat (e_y (entities S ! i)),
                VFloat (e_vx (entities S ! i)), VFloat (e_vy (entities S ! i)),
                VFloat (np_mod (e_heading (entities S ! i)) (2 * np_pi)),
                VFloat (e_spin (entities S ! i)), VFloat (e_fuel (entities S ! i)),
                VFloat (e_throttle (entities S ! i)), VStr (e_landed_on (entities S ! i)),
                VBool (e_broken (entities S ! i))]"
proof -
  have sh: "shape_ok s" and n: "self_n s = length (entities S)"
    and names: "self_entity_names s = map e_name (entities S)"
    using init_shape_ok[OF assms(1)] by simp_all
  have i: "i < self_n s" using assms(2) n by simp
  note slots = init_None_slots[OF assms(1,2)]
  obtain k where k: "name_to_index (map e_name (entities S)) (Some (e_landed_on (entities S ! i))) = Inr k"
    and rd: "(if k = NO_INDEX then Inr [] else py_get (map e_name (entities S)) k) =
                 Inr (e_landed_on (entities S ! i))"
    using name_to_index_resolves[OF assms(3)] by blast
  have "self_array_rep s ! (8 * self_n s + i) = Finite (of_int k)"
    using slots(9) k by (simp add: proto_value_def LANDED_ON_def)
  then have landed: "view_fget s (int i) f_landed_on = Inr (VStr (e_landed_on (entities S ! i)))"
    using rd by (simp add: view_fget_landed_on[OF sh i] trunc_of_int names split: if_splits)
  have fl: "view_fget s (int i) f_x = Inr (VFloat (e_x (entities S ! i)))"
    "view_fget s (int i) f_y = Inr (VFloat (e_y (entities S ! i)))"
    "view_fget s (int i) f_vx = Inr (VFloat (e_vx (entities S ! i)))"
    "view_fget s (int i) f_vy = Inr (VFloat (e_vy (entities S ! i)))"
    "view_fget s (int i) f_heading = Inr (VFloat (np_mod (e_heading (entities S ! i)) (2 * np_pi)))"
    "view_fget s (int i) f_spin = Inr (VFloat (e_spin (entities S ! i)))"
    "view_fget s (int i) f_fuel = Inr (VFloat (e_fuel (entities S ! i)))"
    "view_fget s (int i) f_throttle = Inr (VFloat (e_throttle (entities S ! i)))"
    using slots(1-8)
    by (simp_all add: view_fget_float[OF sh i float_blocks(1)] view_fget_float[OF sh i float_blocks(2)]
        view_fget_float[OF sh i float_blocks(3)] view_fget_float[OF sh i float_blocks(4)]
        view_fget_float[OF sh i float_blocks(5)] view_fget_float[OF sh i float_blocks(6)]
        view_fget_float[OF sh i float_blocks(7)] view_fget_float[OF sh i float_blocks(8)])
  have br: "view_fget s (int i) f_broken = Inr (VBool (e_broken (entities S ! i)))"
    using slots(10) by (simp add: view_fget_bool[OF sh i])
  show ?thesis
    by (simp add: assigned_fields_def fl landed br)
qed






lemma ayse_only_state_init: "PhysicsState_init None ayse_only_snapshot = Inr ayse_only_state"
  by (simp add: init_None_eq ayse_only_snapshot_def ayse_only_state_def snapshot_of_def body_def
      proto_value_def LANDED_ON_def name_to_index_def AYSE_def NO_INDEX_def
      atmosphere_indices_def np_mod_zero)

subsection \<open>The landed-on setter\<close>

lemma landed_on_block:
  "f_landed_on \<notin> set PER_ENTITY_UNCHANGING_FIELDS"
  "cpp_type_of f_landed_on \<notin> {CPPTYPE_FLOAT, CPPTYPE_DOUBLE}"
  "cpp_type_of f_landed_on \<noteq> CPPTYPE_BOOL"
  by (simp_all add: PER_ENTITY_UNCHANGING_FIELDS_def)

lemma view_fset_landed_on_eq:
  "view_fset s i f_landed_on v = entity_view_mutable_fset_landed_on s i v 8"
  by (simp add: view_fset_def landed_on_block float_blocks LANDED_ON_def)

lemma shape_ok_array_update:
  "length a = length (self_array_rep s) \<Longrightarrow> shape_ok (s\<lparr>self_array_rep := a\<rparr>) = shape_ok s"
  by (simp add: shape_ok_def)

lemma view_fset_landed_on_resolved:
  assumes "shape_ok s" "i < self_n s" "name_to_index (self_entity_names s) (Some nm) = Inr k"
  shows "view_fset s (int i) f_landed_on (VStr nm) =
           (s\<lparr>self_array_rep := (self_array_rep s)[8 * self_n s + i := Finite (of_int k)]\<rparr>,
            None)"
  using slot_set[OF assms(1,2), of 8 "Finite (of_int k)"] assms(3)
  by (simp add: view_fset_landed_on_eq entity_view_mutable_fset_landed_on_def)

subsection \<open>The active craft, case by case\<close>

lemma craft_neither:
  "HABITAT \<notin> set (self_entity_names s) \<Longrightarrow> AYSE \<notin> set (self_entity_names s) \<Longrightarrow>
   craft s = Inr None"
  by (simp add: craft_def)

lemma craft_habitat_only:
  "HABITAT \<in> set (self_entity_names s) \<Longrightarrow> AYSE \<notin> set (self_entity_names s) \<Longrightarrow>
   craft s = Inr (Some HABITAT)"
  by (simp add: craft_def)

lemma craft_ayse_only:
  assumes "HABITAT \<notin> set (self_entity_names s)" "AYSE \<in> set (self_entity_names s)"
  shows "craft s = Inl (NoEntityError (HABITAT @ '' not in entity list''))"
proof -
  have "HABITAT \<noteq> []" by (simp add: HABITAT_def)
  then show ?thesis
    using assms name_to_index_absent[of HABITAT "self_entity_names s"] by (simp add: craft_def)
qed

lemma y_component_landed_on_nth:
  assumes "shape_ok s" "h < self_n s"
  shows "\<exists>landed. y_component s f_landed_on = Inr landed \<and>
           py_get landed (int h) = Inr (self_array_rep s ! (8 * self_n s + h))"
proof -
  have b: "8 * self_n s + self_n s \<le> length (self_array_rep s)"
    using assms(1) by (simp add: shape_ok_def length_mutable_fields N_SINGULAR_ELEMENTS_def)
  have "py_get (py_slice (self_array_rep s) (8 * self_n s) (8 * self_n s + self_n s)) (int h) =
          Inr (self_array_rep s ! (8 * self_n s + h))"
    using py_slice_nth[OF b assms(2)] py_slice_length[OF b] assms(2) by (simp add: py_get_nat)
  then show ?thesis
    by (simp add: y_component_def float_blocks)
qed

lemma craft_both:
  assumes "shape_ok s" "list_index (self_entity_names s) HABITAT = Some h"
    "list_index (self_entity_names s) AYSE = Some a"
  shows "craft s =
           Inr (Some (if self_array_rep s ! (8 * self_n s + h) = Finite (of_nat a) then AYSE
                      else HABITAT))"
proof -
  have h: "h < self_n s"
    using list_index_Some[OF assms(2)] assms(1) by (simp add: shape_ok_def)
  have hn: "HABITAT \<in> set (self_entity_names s)"
    using list_index_None[of "self_entity_names s" HABITAT] assms(2) by auto
  have an: "AYSE \<in> set (self_entity_names s)"
    using list_index_None[of "self_entity_names s" AYSE] assms(3) by auto
  obtain landed where l: "y_component s f_landed_on = Inr landed"
    "py_get landed (int h) = Inr (self_array_rep s ! (8 * self_n s + h))"
    using y_component_landed_on_nth[OF assms(1) h] by blast
  show ?thesis
    using hn an assms(2,3) l
    by (simp add: craft_def name_to_index_def HABITAT_def AYSE_def)
qed

subsection \<open>The run of assignments of an entity replacement\<close>

lemma view_fset_mutable_float:
  assumes "shape_ok s" "i < self_n s"
  shows "view_fset s (int i) f_x (VFloat v) =
           (s\<lparr>self_array_rep := (self_array_rep s)[0 * self_n s + i := v]\<rparr>, None)"
    "view_fset s (int i) f_y (VFloat v) =
           (s\<lparr>self_array_rep := (self_array_rep s)[1 * self_n s + i := v]\<rparr>, None)"
    "view_fset s (int i) f_vx (VFloat v) =
           (s\<lparr>self_array_rep := (self_array_rep s)[2 * self_n s + i := v]\<rparr>, None)"
    "view_fset s (int i) f_vy (VFloat v) =
           (s\<lparr>self_array_rep := (self_array_rep s)[3 * self_n s + i := v]\<rparr>, None)"
    "view_fset s (int i) f_heading (VFloat v) =
           (s\<lparr>self_array_rep := (self_array_rep s)[4 * self_n s + i := v]\<rparr>, None)"
    "view_fset s (int i) f_spin (VFloat v) =
           (s\<lparr>self_array_rep := (self_array_rep s)[5 * self_n s + i := v]\<rparr>, None)"
    "view_fset s (int i) f_fuel (VFloat v) =
           (s\<lparr>self_array_rep := (self_array_rep s)[6 * self_n s + i := v]\<rparr>, None)"
    "view_fset s (int i) f_throttle (VFloat v) =
           (s\<lparr>self_array_rep := (self_array_rep s)[7 * self_n s + i := v]\<rparr>, None)"
  using view_fset_float[OF assms float_blocks(1), of v] view_fset_float[OF assms float_blocks(2), of v]
    view_fset_float[OF assms float_blocks(3), of v] view_fset_float[OF assms float_blocks(4), of v]
    view_fset_float[OF assms float_blocks(5), of v] view_fset_float[OF assms float_blocks(6), of v]
    view_fset_float[OF assms float_blocks(7), of v] view_fset_float[OF assms float_blocks(8), of v]
  by simp_all

lemma view_fset_broken:
  assumes "shape_ok s" "i < self_n s"
  shows "view_fset s (int i) f_broken (VBool b) =
           (s\<lparr>self_array_rep :=
                (self_array_rep s)[9 * self_n s + i := Finite (if b then 1 else 0)]\<rparr>, None)"
  using slot_set[OF assms, of 9 "Finite (if b then 1 else 0)"]
  by (simp add: view_fset_def PER_ENTITY_UNCHANGING_FIELDS_def float_blocks
      entity_view_mutable_fset_def)

lemma assign_all_typed:
  assumes "shape_ok s" "i < self_n s" "name_to_index (self_entity_names s) (Some nm) = Inr k"
  shows "assign_all s (int i)
           (zip assigned_fields
              [VFloat x, VFloat y, VFloat vx, VFloat vy, VFloat h, VFloat sp, VFloat fu,
               VFloat th, VStr nm, VBool br]) =
         (s\<lparr>self_array_rep :=
              (self_array_rep s)
                [0 * self_n s + i := x, 1 * self_n s + i := y, 2 * self_n s + i := vx,
                 3 * self_n s + i := vy, 4 * self_n s + i := h, 5 * self_n s + i := sp,
                 6 * self_n s + i := fu, 7 * self_n s + i := th,
                 8 * self_n s + i := Finite (of_int k),
                 9 * self_n s + i := Finite (if br then 1 else 0)]\<rparr>, None)"
  using assms
  by (simp add: assigned_fields_def view_fset_mutable_float view_fset_broken
      view_fset_landed_on_resolved shape_ok_array_update)

lemma map_sum_Inr_iff: "map_sum f g x = Inr b \<longleftrightarrow> (\<exists>r. x = Inr r \<and> b = g r)"
  by (cases x) auto

lemma view_fget_typed:
  assumes "view_fget t j f = Inr b"
  shows "case cpp_type_of f of
           CPPTYPE_STRING \<Rightarrow> \<exists>x. b = VStr x
         | CPPTYPE_BOOL \<Rightarrow> \<exists>x. b = VBool x
         | _ \<Rightarrow> \<exists>x. b = VFloat x"
  using assms
  by (cases f)
     (auto simp: view_fget_def PER_ENTITY_UNCHANGING_FIELDS_def float_blocks LANDED_ON_def
        entity_view_unchanging_fget_def map_sum_Inr_iff split: sum.splits)

lemma arg_fget_typed:
  assumes "arg_fget s v f = Inr b"
  shows "case cpp_type_of f of
           CPPTYPE_STRING \<Rightarrow> \<exists>x. b = VStr x
         | CPPTYPE_BOOL \<Rightarrow> \<exists>x. b = VBool x
         | _ \<Rightarrow> \<exists>x. b = VFloat x"
proof (cases v)
  case (EntityRecord e)
  then show ?thesis using assms by (cases f) (auto simp: arg_fget_def)
next
  case (EntityView c j)
  then show ?thesis
    using assms view_fget_typed[of s j f b] view_fget_typed[of _ j f b]
    by (cases c) (auto simp: arg_fget_def)
qed

lemma reads_typed:
  assumes "mapM_err (arg_fget s v) assigned_fields = Inr vals"
  shows "\<exists>x y vx vy h sp fu th nm br.
           vals = [VFloat x, VFloat y, VFloat vx, VFloat vy, VFloat h, VFloat sp, VFloat fu,
                   VFloat th, VStr nm, VBool br]"
proof -
  have len: "length vals = 10"
    using mapM_err_length[OF assms] by (simp add: assigned_fields_def)
  have el: "arg_fget s v (assigned_fields ! k) = Inr (vals ! k)" if "k < 10" for k
    using mapM_err_nth[OF assms, of k] that by (simp add: assigned_fields_def)
  have t: "\<exists>r. vals ! 0 = VFloat r" "\<exists>r. vals ! 1 = VFloat r" "\<exists>r. vals ! 2 = VFloat r"
    "\<exists>r. vals ! 3 = VFloat r" "\<exists>r. vals ! 4 = VFloat r" "\<exists>r. vals ! 5 = VFloat r"
    "\<exists>r. vals ! 6 = VFloat r" "\<exists>r. vals ! 7 = VFloat r" "\<exists>r. vals ! 8 = VStr r"
    "\<exists>r. vals ! 9 = VBool r"
    using arg_fget_typed[OF el[of 0]] arg_fget_typed[OF el[of 1]] arg_fget_typed[OF el[of 2]]
      arg_fget_typed[OF el[of 3]] arg_fget_typed[OF el[of 4]] arg_fget_typed[OF el[of 5]]
      arg_fget_typed[OF el[of 6]] arg_fget_typed[OF el[of 7]] arg_fget_typed[OF el[of 8]]
      arg_fget_typed[OF el[of 9]]
    by (simp_all add: assigned_fields_def)
  have "vals = [vals ! 0, vals ! 1, vals ! 2, vals ! 3, vals ! 4, vals ! 5, vals ! 6, vals ! 7,
                vals ! 8, vals ! 9]"
    using len by (intro nth_equalityI) (auto simp: nth_Cons' less_Suc_eq numeral_eq_Suc)
  then show ?thesis using t by metis
qed

lemma assigned_array_length: "length (assigned_array s i rs) = length (self_array_rep s)"
  by (simp add: assigned_array_def)

lemma assigned_array_frame:
  "(\<And>k. k < 10 \<Longrightarrow> p \<noteq> k * self_n s + i) \<Longrightarrow>
   assigned_array s i rs ! p = self_array_rep s ! p"
proof -
  assume a: "\<And>k. k < 10 \<Longrightarrow> p \<noteq> k * self_n s + i"
  have "p \<noteq> 0 * self_n s + i" "p \<noteq> 1 * self_n s + i" "p \<noteq> 2 * self_n s + i"
    "p \<noteq> 3 * self_n s + i" "p \<noteq> 4 * self_n s + i" "p \<noteq> 5 * self_n s + i"
    "p \<noteq> 6 * self_n s + i" "p \<noteq> 7 * self_n s + i" "p \<noteq> 8 * self_n s + i"
    "p \<noteq> 9 * self_n s + i"
    using a[of 0] a[of 1] a[of 2] a[of 3] a[of 4] a[of 5] a[of 6] a[of 7] a[of 8] a[of 9]
    by simp_all
  then show ?thesis
    by (simp add: assigned_array_def)
qed

lemma assigned_array_slot:
  assumes "shape_ok s" "i < self_n s" "k < 10"
  shows "assigned_array s i rs ! (k * self_n s + i) = rs ! k"
proof -
  have pos: "0 < self_n s" using assms(2) by simp
  have lt: "j * self_n s + i < length (self_array_rep s)" if "j < 10" for j
    using slot_lt_length[OF assms(1,2) that] .
  have k: "k = 0 \<or> k = 1 \<or> k = 2 \<or> k = 3 \<or> k = 4 \<or> k = 5 \<or> k = 6 \<or> k = 7 \<or> k = 8 \<or> k = 9"
    using assms(3) by arith
  show ?thesis
    using k pos lt[of 0] lt[of 1] lt[of 2] lt[of 3] lt[of 4] lt[of 5] lt[of 6] lt[of 7] lt[of 8]
      lt[of 9]
    by (auto simp: assigned_array_def nth_list_update)
qed

lemma reads_after_assign:
  assumes "shape_ok s" "i < self_n s"
    "(if k = NO_INDEX then Inr [] else py_get (self_entity_names s) k) = Inr nm"
  shows "mapM_err
           (view_fget
              (s\<lparr>self_array_rep :=
                   assigned_array s i
                     [x, y, vx, vy, h, sp, fu, th, Finite (of_int k), Finite (if br then 1 else 0)]\<rparr>) (int i))
           assigned_fields =
         Inr [VFloat x, VFloat y, VFloat vx, VFloat vy, VFloat h, VFloat sp, VFloat fu,
              VFloat th, VStr nm, VBool br]"
proof -
  let ?rs = "[x, y, vx, vy, h, sp, fu, th, Finite (of_int k), Finite (if br then 1 else 0)]"
  let ?s' = "s\<lparr>self_array_rep := assigned_array s i ?rs\<rparr>"
  have sh: "shape_ok ?s'"
    using assms(1) by (simp add: shape_ok_array_update assigned_array_length)
  have i: "i < self_n ?s'" using assms(2) by simp
  have slot: "self_array_rep ?s' ! (j * self_n ?s' + i) = ?rs ! j" if "j < 10" for j
    using assigned_array_slot[OF assms(1,2) that, of ?rs] by simp
  have fl: "view_fget ?s' (int i) f_x = Inr (VFloat x)"
    "view_fget ?s' (int i) f_y = Inr (VFloat y)"
    "view_fget ?s' (int i) f_vx = Inr (VFloat vx)"
    "view_fget ?s' (int i) f_vy = Inr (VFloat vy)"
    "view_fget ?s' (int i) f_heading = Inr (VFloat h)"
    "view_fget ?s' (int i) f_spin = Inr (VFloat sp)"
    "view_fget ?s' (int i) f_fuel = Inr (VFloat fu)"
    "view_fget ?s' (int i) f_throttle = Inr (VFloat th)"
    using slot[of 0] slot[of 1] slot[of 2] slot[of 3] slot[of 4] slot[of 5] slot[of 6] slot[of 7]
    by (simp_all add: view_fget_float[OF sh i float_blocks(1)] view_fget_float[OF sh i float_blocks(2)]
        view_fget_float[OF sh i float_blocks(3)] view_fget_float[OF sh i float_blocks(4)]
        view_fget_float[OF sh i float_blocks(5)] view_fget_float[OF sh i float_blocks(6)]
        view_fget_float[OF sh i float_blocks(7)] view_fget_float[OF sh i float_blocks(8)])
  have landed: "view_fget ?s' (int i) f_landed_on = Inr (VStr nm)"
    using slot[of 8] assms(3)
    by (simp add: view_fget_landed_on[OF sh i] trunc_of_int split: if_splits)
  have br: "view_fget ?s' (int i) f_broken = Inr (VBool br)"
    using slot[of 9] by (simp add: view_fget_bool[OF sh i])
  show ?thesis
    by (simp only: assigned_fields_def mapM_err.simps fl landed br sum.case)
qed

lemma assign_all_array:
  assumes "shape_ok s" "i < self_n s" "name_to_index (self_entity_names s) (Some nm) = Inr k"
  shows "assign_all s (int i)
           (zip assigned_fields
              [VFloat x, VFloat y, VFloat vx, VFloat vy, VFloat h, VFloat sp, VFloat fu,
               VFloat th, VStr nm, VBool br]) =
         (s\<lparr>self_array_rep :=
              assigned_array s i [x, y, vx, vy, h, sp, fu, th, Finite (of_int k), Finite (if br then 1 else 0)]\<rparr>,
          None)"
  unfolding assign_all_typed[OF assms] by (simp add: assigned_array_def)

lemma setitem_assigns:
  assumes "shape_ok s" and "i < self_n s" and "\<not> own_view v"
    and "mapM_err (arg_fget s v) assigned_fields = Inr vals"
    and "vals ! 8 = VStr nm" and "nm = [] \<or> nm \<in> set (self_entity_names s)"
  shows "\<exists>a'. setitem s (ByIndex (int i)) v = (s\<lparr>self_array_rep := a'\<rparr>, None) \<and>
              mapM_err (view_fget (s\<lparr>self_array_rep := a'\<rparr>) (int i)) assigned_fields = Inr vals \<and>
              length a' = length (self_array_rep s) \<and>
              (\<forall>p. (\<forall>k<10. p \<noteq> k * self_n s + i) \<longrightarrow> a' ! p = self_array_rep s ! p)"
proof -
  obtain x y vx vy h sp fu th nm' br where
    vals: "vals = [VFloat x, VFloat y, VFloat vx, VFloat vy, VFloat h, VFloat sp, VFloat fu,
                   VFloat th, VStr nm', VBool br]"
    using reads_typed[OF assms(4)] by blast
  have nm: "nm' = nm" using assms(5) by (simp add: vals)
  obtain k where k: "name_to_index (self_entity_names s) (Some nm) = Inr k"
    and rd: "(if k = NO_INDEX then Inr [] else py_get (self_entity_names s) k) = Inr nm"
    using name_to_index_resolves[OF assms(6)] by blast
  let ?a' = "assigned_array s i [x, y, vx, vy, h, sp, fu, th, Finite (of_int k), Finite (if br then 1 else 0)]"
  have "setitem s (ByIndex (int i)) v = assign_all s (int i) (zip assigned_fields vals)"
    using assms(3,4) by (simp add: setitem_def getitem_def)
  then have st: "setitem s (ByIndex (int i)) v = (s\<lparr>self_array_rep := ?a'\<rparr>, None)"
    unfolding vals nm by (simp only: assign_all_array[OF assms(1,2) k])
  have reads: "mapM_err (view_fget (s\<lparr>self_array_rep := ?a'\<rparr>) (int i)) assigned_fields = Inr vals"
    unfolding vals nm by (rule reads_after_assign[OF assms(1,2) rd])
  have frame: "\<forall>p. (\<forall>k<10. p \<noteq> k * self_n s + i) \<longrightarrow> ?a' ! p = self_array_rep s ! p"
    using assigned_array_frame by blast
  show ?thesis
    using st reads frame assigned_array_length by blast
qed

lemma heavy_habitat_reads:
  "mapM_err (arg_fget s (EntityRecord heavy_habitat)) assigned_fields =
     Inr [VFloat (Finite 1), VFloat (Finite 2), VFloat (Finite 3), VFloat (Finite 4),
          VFloat (Finite 1), VFloat (Finite 0), VFloat (Finite 8), VFloat (Finite 9),
          VStr [], VBool False]"
  by (simp add: assigned_fields_def arg_fget_def heavy_habitat_def body_def)

lemma foreign_view_reads:
  "mapM_err (arg_fget docked_state (EntityView (Other ayse_only_state) 0)) assigned_fields =
     Inr [VFloat (Finite 1), VFloat (Finite 2), VFloat (Finite 3), VFloat (Finite 4),
          VFloat (Finite 0), VFloat (Finite 0), VFloat (Finite 8), VFloat (Finite 9),
          VStr [], VBool False]"
proof -
  have f: "arg_fget docked_state (EntityView (Other ayse_only_state) 0) =
             view_fget ayse_only_state (int 0)"
    by (rule ext) (simp add: arg_fget_def)
  show ?thesis
    unfolding f
    using init_None_reads[OF ayse_only_state_init, of 0]
    by (simp add: ayse_only_snapshot_def snapshot_of_def body_def np_mod_zero)
qed

subsection \<open>The scenario from a vector\<close>



subsection \<open>What a second construction changes\<close>


lemma rebuilt_slot:
  fixes i n k :: nat
  assumes "n * 10 + 2 = length a" "i < n" "k < 10"
  shows "slice_assign a (4 * n) (map g (py_slice a (4 * n) (4 * n + n))) ! (k * n + i) =
           (if k = 4 then g (a ! (k * n + i)) else a ! (k * n + i))"
proof -
  have bound: "4 * n + n \<le> length a" using assms(1) by simp
  have lt: "k * n + i < length a" using slot_in_block[OF assms(2,3)] assms(1) by simp
  have k: "k = 0 \<or> k = 1 \<or> k = 2 \<or> k = 3 \<or> k = 4 \<or> k = 5 \<or> k = 6 \<or> k = 7 \<or> k = 8 \<or> k = 9"
    using assms(3) by arith
  show ?thesis
    unfolding slice_map_nth[OF bound lt]
    using k assms(2) by auto
qed

lemma rebuild_reads:
  assumes "PhysicsState_init y S = Inr s" "i < self_n s"
  shows "\<exists>s2. PhysicsState_init (Some (y0 s)) S = Inr s2 \<and>
              (\<forall>f. f \<noteq> f_heading \<longrightarrow> view_fget s2 (int i) f = view_fget s (int i) f) \<and>
              (\<exists>h. view_fget s (int i) f_heading = Inr (VFloat h) \<and>
                   view_fget s2 (int i) f_heading =
                     Inr (VFloat (if h = Finite (2 * np_pi) then Finite 0 else h)))"
proof -
  let ?g = "\<lambda>h. np_mod h (2 * np_pi)"
  let ?a = "self_array_rep s"
  let ?a2 = "slice_assign ?a (4 * self_n s)
               (map ?g (py_slice ?a (4 * self_n s) (4 * self_n s + self_n s)))"
  let ?s2 = "s\<lparr>self_array_rep := ?a2\<rparr>"
  have sh: "shape_ok s" using init_shape_ok[OF assms(1)] by simp
  have len: "self_n s * 10 + 2 = length ?a"
    using sh by (simp add: shape_ok_def length_mutable_fields N_SINGULAR_ELEMENTS_def)
  have la2: "length ?a2 = length ?a" using len by (intro slice_map_length) simp
  have sh2: "shape_ok ?s2" using sh la2 by (simp add: shape_ok_array_update)
  have i2: "i < self_n ?s2" using assms(2) by simp
  have slot: "?a2 ! (k * self_n s + i) =
                (if k = 4 then ?g (?a ! (k * self_n s + i)) else ?a ! (k * self_n s + i))"
    if "k < 10" for k
    using len assms(2) that by (rule rebuilt_slot)
  have same: "view_fget ?s2 (int i) f = view_fget s (int i) f" if nh: "f \<noteq> f_heading" for f
  proof (cases "f \<in> set PER_ENTITY_UNCHANGING_FIELDS")
    case True
    show ?thesis
      using view_fget_unchanging[OF sh2 i2 True] view_fget_unchanging[OF sh assms(2) True]
      by simp
  next
    case False
    then obtain k where k: "FIELD_ORDERING_get f = Inr k" "k < 10" "k \<noteq> 4"
      using nh by (cases f) (auto simp: PER_ENTITY_UNCHANGING_FIELDS_def field_ordering_get_cases)
    have "py_get ?a2 (int (self_n s) * int k + int i) =
            py_get ?a (int (self_n s) * int k + int i)"
      using slot_get[OF sh2 i2 k(2)] slot_get[OF sh assms(2) k(2)] slot[OF k(2)] k(3) by simp
    then show ?thesis
      using False k(1)
      by (auto simp: view_fget_def entity_view_mutable_fget_float_def
          entity_view_mutable_fget_bool_def entity_view_mutable_fget_landed_on_def
          split: sum.splits)
  qed
  have h1: "view_fget s (int i) f_heading = Inr (VFloat (?a ! (4 * self_n s + i)))"
    by (rule view_fget_float[OF sh assms(2) heading_block])
  have h2: "view_fget ?s2 (int i) f_heading = Inr (VFloat (?g (?a ! (4 * self_n s + i))))"
    using view_fget_float[OF sh2 i2 heading_block] slot[of 4] by simp
  have hv: "?a ! (4 * self_n s + i) = np_mod (ingested_heading y S i) (2 * np_pi)"
    by (rule init_heading_slot[OF assms])
  have again: "?g (?a ! (4 * self_n s + i)) =
                 (if ?a ! (4 * self_n s + i) = Finite (2 * np_pi) then Finite 0
                  else ?a ! (4 * self_n s + i))"
    unfolding hv by (rule np_mod_again)
  have h2': "view_fget ?s2 (int i) f_heading =
               Inr (VFloat (if ?a ! (4 * self_n s + i) = Finite (2 * np_pi) then Finite 0
                            else ?a ! (4 * self_n s + i)))"
    unfolding h2 again ..
  show ?thesis
    using init_rebuild[OF assms(1)] same h1 h2' by blast
qed

subsection \<open>The states of the drifting scenario\<close>


lemma drifting_state_init: "PhysicsState_init None drifting_snapshot = Inr drifting_state"
  by (simp add: init_None_eq drifting_snapshot_def drifting_state_def snapshot_of_def body_def
      proto_value_def LANDED_ON_def name_to_index_def HABITAT_def AYSE_def NO_INDEX_def
      atmosphere_indices_def np_mod_tiny_negative[simplified])

lemma drifting_state_shape: "shape_ok drifting_state"
  using init_shape_ok[OF drifting_state_init] by simp

lemma drifting_state_rebuild:
  "PhysicsState_init (Some (y0 drifting_state)) drifting_snapshot = Inr drifting_state_rebuilt"
proof -
  have "np_mod (Finite (2 * np_pi)) (2 * np_pi) = Finite 0"
    by (simp only: np_mod_Finite npy_divmod_mod_self[OF two_np_pi_pos])
  then show ?thesis
    by (simp add: init_Some_eq y0_def drifting_snapshot_def drifting_state_def
        drifting_state_rebuilt_def snapshot_of_def body_def slice_assign_def py_slice_def
        atmosphere_indices_def HABITAT_def AYSE_def)
qed

lemma drifting_state_headings:
  "view_fget drifting_state (int 0) f_heading = Inr (VFloat (Finite (2 * np_pi)))"
  "view_fget drifting_state (int 1) f_heading = Inr (VFloat NaN)"
  "view_fget drifting_state_rebuilt (int 0) f_heading = Inr (VFloat (Finite 0))"
proof -
  have n: "(0::nat) < self_n drifting_state" "(1::nat) < self_n drifting_state"
    by (simp_all add: drifting_state_def)
  have sh: "shape_ok drifting_state_rebuilt"
    using init_shape_ok[OF drifting_state_rebuild] by simp
  have n': "(0::nat) < self_n drifting_state_rebuilt"
    by (simp add: drifting_state_rebuilt_def)
  show "view_fget drifting_state (int 0) f_heading = Inr (VFloat (Finite (2 * np_pi)))"
    unfolding view_fget_float[OF drifting_state_shape n(1) heading_block]
    by (simp add: drifting_state_def)
  show "view_fget drifting_state (int 1) f_heading = Inr (VFloat NaN)"
    unfolding view_fget_float[OF drifting_state_shape n(2) heading_block]
    by (simp add: drifting_state_def)
  show "view_fget drifting_state_rebuilt (int 0) f_heading = Inr (VFloat (Finite 0))"
    unfolding view_fget_float[OF sh n' heading_block]
    by (simp add: drifting_state_rebuilt_def)
qed

subsection \<open>An entity replacement that stops at the landed-on name\<close>

lemma partly_assigned_array_length:
  "length (partly_assigned_array s i rs) = length (self_array_rep s)"
  by (simp add: partly_assigned_array_def)

lemma partly_assigned_array_frame:
  "(\<And>k. k < 8 \<Longrightarrow> p \<noteq> k * self_n s + i) \<Longrightarrow>
   partly_assigned_array s i rs ! p = self_array_rep s ! p"
proof -
  assume a: "\<And>k. k < 8 \<Longrightarrow> p \<noteq> k * self_n s + i"
  have "p \<noteq> 0 * self_n s + i" "p \<noteq> 1 * self_n s + i" "p \<noteq> 2 * self_n s + i"
    "p \<noteq> 3 * self_n s + i" "p \<noteq> 4 * self_n s + i" "p \<noteq> 5 * self_n s + i"
    "p \<noteq> 6 * self_n s + i" "p \<noteq> 7 * self_n s + i"
    using a[of 0] a[of 1] a[of 2] a[of 3] a[of 4] a[of 5] a[of 6] a[of 7]
    by simp_all
  then show ?thesis
    by (simp add: partly_assigned_array_def)
qed

lemma partly_assigned_array_slot:
  assumes "shape_ok s" "i < self_n s" "k < 10"
  shows "partly_assigned_array s i rs ! (k * self_n s + i) =
           (if k < 8 then rs ! k else self_array_rep s ! (k * self_n s + i))"
proof -
  have pos: "0 < self_n s" using assms(2) by simp
  have lt: "j * self_n s + i < length (self_array_rep s)" if "j < 10" for j
    using slot_lt_length[OF assms(1,2) that] .
  have k: "k = 0 \<or> k = 1 \<or> k = 2 \<or> k = 3 \<or> k = 4 \<or> k = 5 \<or> k = 6 \<or> k = 7 \<or> k = 8 \<or> k = 9"
    using assms(3) by arith
  show ?thesis
    using k pos lt[of 0] lt[of 1] lt[of 2] lt[of 3] lt[of 4] lt[of 5] lt[of 6] lt[of 7] lt[of 8]
      lt[of 9]
    by (auto simp: partly_assigned_array_def nth_list_update)
qed

lemma view_fset_landed_on_absent:
  assumes "nm \<noteq> []" "nm \<notin> set (self_entity_names s)"
  shows "view_fset s j f_landed_on (VStr nm) =
           (s, Some (NoEntityError (nm @ '' not in entity list'')))"
  using name_to_index_absent[OF assms]
  by (simp add: view_fset_landed_on_eq entity_view_mutable_fset_landed_on_def)

lemma assign_all_partial:
  assumes "shape_ok s" "i < self_n s" "nm \<noteq> []" "nm \<notin> set (self_entity_names s)"
  shows "assign_all s (int i)
           (zip assigned_fields
              [VFloat x, VFloat y, VFloat vx, VFloat vy, VFloat h, VFloat sp, VFloat fu,
               VFloat th, VStr nm, VBool br]) =
         (s\<lparr>self_array_rep := partly_assigned_array s i [x, y, vx, vy, h, sp, fu, th]\<rparr>,
          Some (NoEntityError (nm @ '' not in entity list'')))"
  using assms
  by (simp add: assigned_fields_def view_fset_mutable_float view_fset_landed_on_absent
      shape_ok_array_update partly_assigned_array_def)

lemma reads_after_partial_assign:
  assumes "shape_ok s" "i < self_n s"
  shows "mapM_err
           (view_fget (s\<lparr>self_array_rep :=
                          partly_assigned_array s i [x, y, vx, vy, h, sp, fu, th]\<rparr>) (int i))
           (take 8 assigned_fields) =
         Inr [VFloat x, VFloat y, VFloat vx, VFloat vy, VFloat h, VFloat sp, VFloat fu, VFloat th]"
    and "view_fget (s\<lparr>self_array_rep :=
                        partly_assigned_array s i [x, y, vx, vy, h, sp, fu, th]\<rparr>) (int i)
           f_landed_on = view_fget s (int i) f_landed_on"
    and "view_fget (s\<lparr>self_array_rep :=
                        partly_assigned_array s i [x, y, vx, vy, h, sp, fu, th]\<rparr>) (int i)
           f_broken = view_fget s (int i) f_broken"
proof -
  let ?rs = "[x, y, vx, vy, h, sp, fu, th]"
  let ?s' = "s\<lparr>self_array_rep := partly_assigned_array s i ?rs\<rparr>"
  have sh: "shape_ok ?s'"
    using assms(1) by (simp add: shape_ok_array_update partly_assigned_array_length)
  have i: "i < self_n ?s'" using assms(2) by simp
  have slot: "self_array_rep ?s' ! (j * self_n ?s' + i) =
                (if j < 8 then ?rs ! j else self_array_rep s ! (j * self_n s + i))"
    if "j < 10" for j
    using partly_assigned_array_slot[OF assms(1,2) that, of ?rs] by simp
  have fl: "view_fget ?s' (int i) f_x = Inr (VFloat x)"
    "view_fget ?s' (int i) f_y = Inr (VFloat y)"
    "view_fget ?s' (int i) f_vx = Inr (VFloat vx)"
    "view_fget ?s' (int i) f_vy = Inr (VFloat vy)"
    "view_fget ?s' (int i) f_heading = Inr (VFloat h)"
    "view_fget ?s' (int i) f_spin = Inr (VFloat sp)"
    "view_fget ?s' (int i) f_fuel = Inr (VFloat fu)"
    "view_fget ?s' (int i) f_throttle = Inr (VFloat th)"
    using slot[of 0] slot[of 1] slot[of 2] slot[of 3] slot[of 4] slot[of 5] slot[of 6] slot[of 7]
    by (simp_all add: view_fget_float[OF sh i float_blocks(1)] view_fget_float[OF sh i float_blocks(2)]
        view_fget_float[OF sh i float_blocks(3)] view_fget_float[OF sh i float_blocks(4)]
        view_fget_float[OF sh i float_blocks(5)] view_fget_float[OF sh i float_blocks(6)]
        view_fget_float[OF sh i float_blocks(7)] view_fget_float[OF sh i float_blocks(8)])
  show "mapM_err (view_fget ?s' (int i)) (take 8 assigned_fields) =
         Inr [VFloat x, VFloat y, VFloat vx, VFloat vy, VFloat h, VFloat sp, VFloat fu, VFloat th]"
    by (simp add: assigned_fields_def fl)
  show "view_fget ?s' (int i) f_landed_on = view_fget s (int i) f_landed_on"
    unfolding view_fget_landed_on[OF sh i] view_fget_landed_on[OF assms]
    using slot[of 8] by (simp split: sum.splits)
  show "view_fget ?s' (int i) f_broken = view_fget s (int i) f_broken"
    unfolding view_fget_bool[OF sh i] view_fget_bool[OF assms]
    using slot[of 9] by simp
qed

lemma setitem_unreadable:
  assumes "\<not> own_view v" "mapM_err (arg_fget s v) assigned_fields = Inl e"
  shows "setitem s (ByIndex j) v = (s, Some e)"
  using assms by (simp add: setitem_def getitem_def)

lemma setitem_partial:
  assumes "shape_ok s" and "i < self_n s" and "\<not> own_view v"
    and "mapM_err (arg_fget s v) assigned_fields = Inr vals"
    and "vals ! 8 = VStr nm" and "nm \<noteq> []" and "nm \<notin> set (self_entity_names s)"
  shows "\<exists>a'. setitem s (ByIndex (int i)) v =
                (s\<lparr>self_array_rep := a'\<rparr>, Some (NoEntityError (nm @ '' not in entity list''))) \<and>
              mapM_err (view_fget (s\<lparr>self_array_rep := a'\<rparr>) (int i)) (take 8 assigned_fields) =
                Inr (take 8 vals) \<and>
              view_fget (s\<lparr>self_array_rep := a'\<rparr>) (int i) f_landed_on =
                view_fget s (int i) f_landed_on \<and>
              view_fget (s\<lparr>self_array_rep := a'\<rparr>) (int i) f_broken =
                view_fget s (int i) f_broken \<and>
              length a' = length (self_array_rep s) \<and>
              (\<forall>p. (\<forall>k<8. p \<noteq> k * self_n s + i) \<longrightarrow> a' ! p = self_array_rep s ! p)"
proof -
  obtain x y vx vy h sp fu th nm' br where
    vals: "vals = [VFloat x, VFloat y, VFloat vx, VFloat vy, VFloat h, VFloat sp, VFloat fu,
                   VFloat th, VStr nm', VBool br]"
    using reads_typed[OF assms(4)] by blast
  have nm: "nm' = nm" using assms(5) by (simp add: vals)
  let ?a' = "partly_assigned_array s i [x, y, vx, vy, h, sp, fu, th]"
  have "setitem s (ByIndex (int i)) v = assign_all s (int i) (zip assigned_fields vals)"
    using assms(3,4) by (simp add: setitem_def getitem_def)
  then have st: "setitem s (ByIndex (int i)) v =
      (s\<lparr>self_array_rep := ?a'\<rparr>, Some (NoEntityError (nm @ '' not in entity list'')))"
    unfolding vals nm by (simp only: assign_all_partial[OF assms(1,2,6,7)])
  have t8: "take 8 vals =
      [VFloat x, VFloat y, VFloat vx, VFloat vy, VFloat h, VFloat sp, VFloat fu, VFloat th]"
    by (simp add: vals)
  note rd = reads_after_partial_assign[OF assms(1,2), of x y vx vy h sp fu th]
  have frame: "\<forall>p. (\<forall>k<8. p \<noteq> k * self_n s + i) \<longrightarrow> ?a' ! p = self_array_rep s ! p"
    using partly_assigned_array_frame by blast
  show ?thesis
    using st rd frame partly_assigned_array_length unfolding t8 by blast
qed

lemma stray_habitat_reads:
  "mapM_err (arg_fget s (EntityRecord stray_habitat)) assigned_fields =
     Inr [VFloat (Finite 100), VFloat (Finite 2), VFloat (Finite 3), VFloat (Finite 4),
          VFloat (Finite 1), VFloat (Finite 0), VFloat (Finite 8), VFloat (Finite 9),
          VStr ''Earth'', VBool True]"
  by (simp add: assigned_fields_def arg_fget_def stray_habitat_def body_def)

lemma stray_habitat_assigned:
  "setitem docked_state (ByIndex (int 0)) (EntityRecord stray_habitat) =
     (docked_state\<lparr>self_array_rep :=
        map Finite
          [100, 1, 2, 2, 3, 3, 4, 4, 1, 0, 0, 0, 8, 8, 9, 9, 1, -1, 0, 0, 30, 1]\<rparr>,
      Some (NoEntityError ''Earth not in entity list''))"
proof -
  have n: "(0::nat) < self_n docked_state" by (simp add: docked_state_def)
  have e: "''Earth'' \<noteq> []" "''Earth'' \<notin> set (self_entity_names docked_state)"
    by (simp_all add: docked_state_def HABITAT_def AYSE_def)
  have "setitem docked_state (ByIndex (int 0)) (EntityRecord stray_habitat) =
          assign_all docked_state (int 0)
            (zip assigned_fields
               [VFloat (Finite 100), VFloat (Finite 2), VFloat (Finite 3), VFloat (Finite 4),
                VFloat (Finite 1), VFloat (Finite 0), VFloat (Finite 8), VFloat (Finite 9),
                VStr ''Earth'', VBool True])"
    by (simp add: setitem_def getitem_def stray_habitat_reads)
  then show ?thesis
    unfolding assign_all_partial[OF docked_state_shape n e]
    by (simp add: partly_assigned_array_def docked_state_def)
qed

section \<open>The claims\<close>

subsection \<open>Claim C1\<close>




subsection \<open>Claim C2\<close>

text \<open>
  Claim C2. In a state of the constructed shape, at an entity index \<open>i < n\<close>: the view's
  property of a mutable float field reads the vector at \<open>block * n + i\<close>, where \<open>block\<close> is
  the field's place in the field ordering, and its setter changes that slot and nothing
  else; the property of an unchanging field reads the field of entity \<open>i\<close> of the owned
  snapshot, and its setter (given a value of the field's type) replaces that field of that
  entity and nothing else.
\<close>

theorem C2_view_accessors:
  assumes "shape_ok s" and "i < self_n s"
  shows "(f \<notin> set PER_ENTITY_UNCHANGING_FIELDS \<and> cpp_type_of f \<in> {CPPTYPE_FLOAT, CPPTYPE_DOUBLE} \<longrightarrow>
            (\<exists>block. FIELD_ORDERING_get f = Inr block \<and>
               view_fget s (int i) f = Inr (VFloat (self_array_rep s ! (block * self_n s + i))) \<and>
               (\<forall>v. view_fset s (int i) f (VFloat v) =
                  (s\<lparr>self_array_rep := (self_array_rep s)[block * self_n s + i := v]\<rparr>, None)))) \<and>
         (f \<in> set PER_ENTITY_UNCHANGING_FIELDS \<longrightarrow>
            view_fget s (int i) f = Inr (getattr (entities (self_proto_state s) ! i) f) \<and>
            (\<forall>w e'. setattr (entities (self_proto_state s) ! i) f w = Inr e' \<longrightarrow>
               view_fset s (int i) f w =
                 (s\<lparr>self_proto_state :=
                      (self_proto_state s)\<lparr>entities := (entities (self_proto_state s))[i := e']\<rparr>\<rparr>,
                  None)))"
proof (intro conjI impI)
  assume h: "f \<notin> set PER_ENTITY_UNCHANGING_FIELDS \<and> cpp_type_of f \<in> {CPPTYPE_FLOAT, CPPTYPE_DOUBLE}"
  then obtain block where b: "FIELD_ORDERING_get f = Inr block"
    by (cases f) (auto simp: field_ordering_get_cases PER_ENTITY_UNCHANGING_FIELDS_def)
  show "\<exists>block. FIELD_ORDERING_get f = Inr block \<and>
               view_fget s (int i) f = Inr (VFloat (self_array_rep s ! (block * self_n s + i))) \<and>
               (\<forall>v. view_fset s (int i) f (VFloat v) =
                  (s\<lparr>self_array_rep := (self_array_rep s)[block * self_n s + i := v]\<rparr>, None))"
    using b h view_fget_float[OF assms b] view_fset_float[OF assms b] by blast
next
  assume "f \<in> set PER_ENTITY_UNCHANGING_FIELDS"
  then show "view_fget s (int i) f = Inr (getattr (entities (self_proto_state s) ! i) f)"
    using assms by (rule view_fget_unchanging[rotated 2])
next
  assume u: "f \<in> set PER_ENTITY_UNCHANGING_FIELDS"
  show "\<forall>w e'. setattr (entities (self_proto_state s) ! i) f w = Inr e' \<longrightarrow>
               view_fset s (int i) f w =
                 (s\<lparr>self_proto_state :=
                      (self_proto_state s)\<lparr>entities := (entities (self_proto_state s))[i := e']\<rparr>\<rparr>,
                  None)"
    using view_fset_unchanging[OF assms u] by blast
qed

theorem C2_view_accessors_witness:
  "shape_ok docked_state \<and> (0::nat) < self_n docked_state \<and>
   f_x \<notin> set PER_ENTITY_UNCHANGING_FIELDS \<and>
   cpp_type_of f_x \<in> {CPPTYPE_FLOAT, CPPTYPE_DOUBLE} \<and>
   (\<exists>block. FIELD_ORDERING_get f_x = Inr block \<and>
      view_fget docked_state (int 0) f_x =
        Inr (VFloat (self_array_rep docked_state ! (block * self_n docked_state + 0))) \<and>
      (\<forall>v. view_fset docked_state (int 0) f_x (VFloat v) =
         (docked_state\<lparr>self_array_rep :=
            (self_array_rep docked_state)[block * self_n docked_state + 0 := v]\<rparr>, None))) \<and>
   f_mass \<in> set PER_ENTITY_UNCHANGING_FIELDS \<and>
   view_fget docked_state (int 0) f_mass =
     Inr (getattr (entities (self_proto_state docked_state) ! 0) f_mass)"
proof -
  have n: "(0::nat) < self_n docked_state" by (simp add: docked_state_def)
  have a: "f_x \<notin> set PER_ENTITY_UNCHANGING_FIELDS \<and>
           cpp_type_of f_x \<in> {CPPTYPE_FLOAT, CPPTYPE_DOUBLE}"
    by (simp add: PER_ENTITY_UNCHANGING_FIELDS_def)
  have b: "f_mass \<in> set PER_ENTITY_UNCHANGING_FIELDS"
    by (simp add: PER_ENTITY_UNCHANGING_FIELDS_def)
  show ?thesis
    using docked_state_shape n a b
      C2_view_accessors[OF docked_state_shape n, of f_x]
      C2_view_accessors[OF docked_state_shape n, of f_mass]
    by blast
qed

subsection \<open>Claim C3\<close>

text \<open>
  Claim C3, as amended. A state built by the constructor, from a snapshot alone or from a
  vector, has a vector of \<open>n * k + 2\<close> elements; constructing a second state from that
  vector and the same snapshot succeeds, and at every entity index \<open>i < n\<close> every field
  but the heading reads through the view of the second state what it reads through the
  view of the first. The heading reads the same as well, unless the first state reads
  the double \<^verbatim>\<open>2 * np.pi\<close> itself: then the second state reads 0.
\<close>

theorem C3_rebuild_from_buffer:
  assumes "PhysicsState_init y S = Inr s"
  shows "length (y0 s) = length (entities S) * length PER_ENTITY_MUTABLE_FIELDS + 2 \<and>
         (\<exists>s2. PhysicsState_init (Some (y0 s)) S = Inr s2 \<and>
               (\<forall>i<self_n s. \<forall>f. f \<noteq> f_heading \<longrightarrow>
                  view_fget s2 (int i) f = view_fget s (int i) f) \<and>
               (\<forall>i<self_n s. \<exists>h.
                  view_fget s (int i) f_heading = Inr (VFloat h) \<and>
                  view_fget s2 (int i) f_heading =
                    Inr (VFloat (if h = Finite (2 * np_pi) then Finite 0 else h))))"
proof -
  have "shape_ok s" "self_n s = length (entities S)"
    using init_shape_ok[OF assms] by simp_all
  then have len: "length (y0 s) = length (entities S) * length PER_ENTITY_MUTABLE_FIELDS + 2"
    by (simp add: shape_ok_def y0_def N_SINGULAR_ELEMENTS_def)
  obtain s2 where s2: "PhysicsState_init (Some (y0 s)) S = Inr s2"
    using init_rebuild[OF assms] by blast
  have "(\<forall>f. f \<noteq> f_heading \<longrightarrow> view_fget s2 (int i) f = view_fget s (int i) f) \<and>
        (\<exists>h. view_fget s (int i) f_heading = Inr (VFloat h) \<and>
             view_fget s2 (int i) f_heading =
               Inr (VFloat (if h = Finite (2 * np_pi) then Finite 0 else h)))"
    if "i < self_n s" for i
    using rebuild_reads[OF assms that] s2 by auto
  then show ?thesis
    using len s2 by blast
qed

theorem C3_rebuild_from_buffer_witness:
  "PhysicsState_init None docked_snapshot = Inr docked_state \<and>
   length (y0 docked_state) =
     length (entities docked_snapshot) * length PER_ENTITY_MUTABLE_FIELDS + 2 \<and>
   (\<exists>s2. PhysicsState_init (Some (y0 docked_state)) docked_snapshot = Inr s2 \<and>
         view_fget s2 (int 0) f_x = view_fget docked_state (int 0) f_x \<and>
         view_fget s2 (int 0) f_landed_on = view_fget docked_state (int 0) f_landed_on \<and>
         view_fget docked_state (int 0) f_heading = Inr (VFloat (Finite (15 / 2 - 2 * np_pi))) \<and>
         view_fget s2 (int 0) f_heading = Inr (VFloat (Finite (15 / 2 - 2 * np_pi))))"
proof -
  have n: "(0::nat) < self_n docked_state" by (simp add: docked_state_def)
  obtain s2 where s2: "PhysicsState_init (Some (y0 docked_state)) docked_snapshot = Inr s2"
    and same: "\<forall>i<self_n docked_state. \<forall>f. f \<noteq> f_heading \<longrightarrow>
                 view_fget s2 (int i) f = view_fget docked_state (int i) f"
    and head: "\<forall>i<self_n docked_state. \<exists>h.
                 view_fget docked_state (int i) f_heading = Inr (VFloat h) \<and>
                 view_fget s2 (int i) f_heading =
                   Inr (VFloat (if h = Finite (2 * np_pi) then Finite 0 else h))"
    and len: "length (y0 docked_state) =
                length (entities docked_snapshot) * length PER_ENTITY_MUTABLE_FIELDS + 2"
    using C3_rebuild_from_buffer[OF docked_state_init] by blast
  have h0: "view_fget docked_state (int 0) f_heading = Inr (VFloat (Finite (15 / 2 - 2 * np_pi)))"
    unfolding view_fget_float[OF docked_state_shape n heading_block]
    by (simp add: docked_state_def)
  have ne: "15 / 2 - 2 * np_pi \<noteq> 2 * np_pi" by (simp add: np_pi_def)
  obtain h where h: "view_fget docked_state (int 0) f_heading = Inr (VFloat h)"
    "view_fget s2 (int 0) f_heading =
       Inr (VFloat (if h = Finite (2 * np_pi) then Finite 0 else h))"
    using head n by blast
  have "h = Finite (15 / 2 - 2 * np_pi)" using h(1) h0 by simp
  then have h2: "view_fget s2 (int 0) f_heading = Inr (VFloat (Finite (15 / 2 - 2 * np_pi)))"
    using h(2) ne by simp
  have "view_fget s2 (int 0) f_x = view_fget docked_state (int 0) f_x"
    "view_fget s2 (int 0) f_landed_on = view_fget docked_state (int 0) f_landed_on"
    using same[rule_format, OF n] by simp_all
  then show ?thesis
    using docked_state_init len s2 h0 h2 by blast
qed

text \<open>
  Claim C3 as stated fails on the state built from the snapshot whose Habitat has the
  heading \<open>- 2 ^ -67\<close>: its view reads the heading \<^verbatim>\<open>2 * np.pi\<close>, and the view of the state
  constructed again from its vector reads the heading 0.
\<close>

theorem C3_rebuild_from_buffer_counterexample:
  "PhysicsState_init None drifting_snapshot = Inr drifting_state \<and>
   PhysicsState_init (Some (y0 drifting_state)) drifting_snapshot = Inr drifting_state_rebuilt \<and>
   view_fget drifting_state 0 f_heading = Inr (VFloat (Finite (2 * np_pi))) \<and>
   view_fget drifting_state_rebuilt 0 f_heading = Inr (VFloat (Finite 0)) \<and>
   view_fget drifting_state_rebuilt 0 f_heading \<noteq> view_fget drifting_state 0 f_heading"
proof -
  have "2 * np_pi \<noteq> 0" by (simp add: np_pi_def)
  then show ?thesis
    using drifting_state_init drifting_state_rebuild drifting_state_headings by simp
qed

subsection \<open>Claim C4\<close>

text \<open>
  Claim C4. Construction from a vector whose length is not \<open>n * k + 2\<close> fails (with the
  IndexError of the read at index -2 when it has fewer than two elements, else with the
  AssertionError of the size checks), and the vector of every state that was constructed
  satisfies both size checks against the entity count of its snapshot.
\<close>

theorem C4_shape_mismatch:
  "(length y \<noteq> length (entities S) * length PER_ENTITY_MUTABLE_FIELDS + 2 \<longrightarrow>
      (\<exists>e. PhysicsState_init (Some y) S = Inl e)) \<and>
   (PhysicsState_init y' S' = Inr s \<longrightarrow>
      (int (length (self_array_rep s)) - 2) mod int (length PER_ENTITY_MUTABLE_FIELDS) = 0 \<and>
      (int (length (self_array_rep s)) - 2) div int (length PER_ENTITY_MUTABLE_FIELDS) =
        int (length (entities S')) \<and>
      self_n s = length (entities S'))"
proof (intro conjI impI)
  assume "length y \<noteq> length (entities S) * length PER_ENTITY_MUTABLE_FIELDS + 2"
  then show "\<exists>e. PhysicsState_init (Some y) S = Inl e"
    by (simp add: init_Some_eq length_mutable_fields)
next
  assume a: "PhysicsState_init y' S' = Inr s"
  have sh: "shape_ok s" and n: "self_n s = length (entities S')"
    using init_shape_ok[OF a] by simp_all
  have len: "length (self_array_rep s) = length (entities S') * 10 + 2"
    using sh n by (simp add: shape_ok_def length_mutable_fields N_SINGULAR_ELEMENTS_def)
  show "(int (length (self_array_rep s)) - 2) mod int (length PER_ENTITY_MUTABLE_FIELDS) = 0"
    by (simp add: len length_mutable_fields)
  show "(int (length (self_array_rep s)) - 2) div int (length PER_ENTITY_MUTABLE_FIELDS) =
        int (length (entities S'))"
    by (simp add: len length_mutable_fields)
  show "self_n s = length (entities S')" by (rule n)
qed

theorem C4_shape_mismatch_witness:
  "length [Finite 0, Finite 0, Finite 0] \<noteq> length (entities docked_snapshot) * length PER_ENTITY_MUTABLE_FIELDS + 2 \<and>
   (\<exists>e. PhysicsState_init (Some [Finite 0, Finite 0, Finite 0]) docked_snapshot = Inl e) \<and>
   PhysicsState_init None docked_snapshot = Inr docked_state \<and>
   (int (length (self_array_rep docked_state)) - 2) mod int (length PER_ENTITY_MUTABLE_FIELDS) = 0 \<and>
   (int (length (self_array_rep docked_state)) - 2) div int (length PER_ENTITY_MUTABLE_FIELDS) =
     int (length (entities docked_snapshot)) \<and>
   self_n docked_state = length (entities docked_snapshot)"
proof -
  have h: "length [Finite 0, Finite 0, Finite 0] \<noteq>
             length (entities docked_snapshot) * length PER_ENTITY_MUTABLE_FIELDS + 2"
    by (simp add: docked_snapshot_def snapshot_of_def length_mutable_fields)
  show ?thesis
    using h docked_state_init
      C4_shape_mismatch[of "[Finite 0, Finite 0, Finite 0]" docked_snapshot None docked_snapshot docked_state]
    by blast
qed

subsection \<open>Claim C5\<close>

text \<open>
  Claim C5, at the input where the code departs from it. In the state built from a
  snapshot whose only entity is "AYSE", the active-craft resolution does not return
  "AYSE": the lookup of "Habitat" by \<^verbatim>\<open>_name_to_index\<close> raises NoEntityError. The lemmas
  \<open>craft_neither\<close>, \<open>craft_habitat_only\<close> and \<open>craft_both\<close> state the other cases
  of the claim, which hold.
\<close>

theorem C5_craft_ayse_only:
  "PhysicsState_init None ayse_only_snapshot = Inr ayse_only_state \<and>
   craft ayse_only_state = Inl (NoEntityError ''Habitat not in entity list'')"
  by (simp add: ayse_only_state_init craft_def ayse_only_state_def name_to_index_def
      HABITAT_def AYSE_def)

subsection \<open>Claim C6\<close>

text \<open>
  Claim C6, as amended. In a state of the constructed shape, at an entity index
  \<open>i < n\<close>, for a value that is an entity record or a view owned by another state,
  \<^verbatim>\<open>s[i] = e\<close> first reads the ten mutable fields of the value. If a read raises, the
  error is raised and the state is as before. Otherwise, with \<open>vals\<close> the ten values read
  and \<open>nm\<close> the landed-on name among them:

  \<^item> if \<open>nm\<close> is empty or in the entity list of the state, the assignment returns
    normally, changes nothing but the vector, the ten mutable fields of view \<open>i\<close> then
    read as \<open>vals\<close>, and every slot of the vector outside the ten slots \<open>k * n + i\<close>
    keeps its value; the owned snapshot, and with it every unchanging field, is as before;

  \<^item> if \<open>nm\<close> is not empty and not in the entity list, the assignment raises the
    NoEntityError that carries \<open>nm\<close> after it has stored the eight fields from \<^verbatim>\<open>x\<close> to
    \<^verbatim>\<open>throttle\<close>: these then read as the first eight of \<open>vals\<close>, the landed-on and the
    broken field of view \<open>i\<close> read as before, and every slot of the vector outside the
    eight slots \<open>k * n + i\<close>, \<open>k < 8\<close>, keeps its value.

  When the value is a view owned by the state itself and bound to the same index \<open>i\<close>,
  the assignment changes nothing.
\<close>

theorem C6_setitem_copies_mutable_fields:
  assumes "shape_ok s" and "i < self_n s" and "\<not> own_view v"
  shows "(\<forall>e. mapM_err (arg_fget s v) assigned_fields = Inl e \<longrightarrow>
              setitem s (ByIndex (int i)) v = (s, Some e)) \<and>
         (\<forall>vals nm.
            mapM_err (arg_fget s v) assigned_fields = Inr vals \<and> vals ! 8 = VStr nm \<longrightarrow>
            (nm = [] \<or> nm \<in> set (self_entity_names s) \<longrightarrow>
               (\<exists>a'. setitem s (ByIndex (int i)) v = (s\<lparr>self_array_rep := a'\<rparr>, None) \<and>
                     mapM_err (view_fget (s\<lparr>self_array_rep := a'\<rparr>) (int i)) assigned_fields =
                       Inr vals \<and>
                     length a' = length (self_array_rep s) \<and>
                     (\<forall>p. (\<forall>k<10. p \<noteq> k * self_n s + i) \<longrightarrow>
                          a' ! p = self_array_rep s ! p))) \<and>
            (nm \<noteq> [] \<and> nm \<notin> set (self_entity_names s) \<longrightarrow>
               (\<exists>a'. setitem s (ByIndex (int i)) v =
                       (s\<lparr>self_array_rep := a'\<rparr>,
                        Some (NoEntityError (nm @ '' not in entity list''))) \<and>
                     mapM_err (view_fget (s\<lparr>self_array_rep := a'\<rparr>) (int i))
                       (take 8 assigned_fields) = Inr (take 8 vals) \<and>
                     view_fget (s\<lparr>self_array_rep := a'\<rparr>) (int i) f_landed_on =
                       view_fget s (int i) f_landed_on \<and>
                     view_fget (s\<lparr>self_array_rep := a'\<rparr>) (int i) f_broken =
                       view_fget s (int i) f_broken \<and>
                     length a' = length (self_array_rep s) \<and>
                     (\<forall>p. (\<forall>k<8. p \<noteq> k * self_n s + i) \<longrightarrow>
                          a' ! p = self_array_rep s ! p)))) \<and>
         setitem s (ByIndex (int i)) (EntityView This (int i)) = (s, None)"
proof (intro conjI allI impI)
  fix e assume "mapM_err (arg_fget s v) assigned_fields = Inl e"
  with assms(3) show "setitem s (ByIndex (int i)) v = (s, Some e)"
    by (rule setitem_unreadable)
next
  fix vals nm
  assume r: "mapM_err (arg_fget s v) assigned_fields = Inr vals \<and> vals ! 8 = VStr nm"
    and nm: "nm = [] \<or> nm \<in> set (self_entity_names s)"
  show "\<exists>a'. setitem s (ByIndex (int i)) v = (s\<lparr>self_array_rep := a'\<rparr>, None) \<and>
             mapM_err (view_fget (s\<lparr>self_array_rep := a'\<rparr>) (int i)) assigned_fields = Inr vals \<and>
             length a' = length (self_array_rep s) \<and>
             (\<forall>p. (\<forall>k<10. p \<noteq> k * self_n s + i) \<longrightarrow> a' ! p = self_array_rep s ! p)"
    using setitem_assigns[OF assms] r nm by blast
next
  fix vals nm
  assume r: "mapM_err (arg_fget s v) assigned_fields = Inr vals \<and> vals ! 8 = VStr nm"
    and nm: "nm \<noteq> [] \<and> nm \<notin> set (self_entity_names s)"
  show "\<exists>a'. setitem s (ByIndex (int i)) v =
               (s\<lparr>self_array_rep := a'\<rparr>, Some (NoEntityError (nm @ '' not in entity list''))) \<and>
             mapM_err (view_fget (s\<lparr>self_array_rep := a'\<rparr>) (int i)) (take 8 assigned_fields) =
               Inr (take 8 vals) \<and>
             view_fget (s\<lparr>self_array_rep := a'\<rparr>) (int i) f_landed_on =
               view_fget s (int i) f_landed_on \<and>
             view_fget (s\<lparr>self_array_rep := a'\<rparr>) (int i) f_broken =
               view_fget s (int i) f_broken \<and>
             length a' = length (self_array_rep s) \<and>
             (\<forall>p. (\<forall>k<8. p \<noteq> k * self_n s + i) \<longrightarrow> a' ! p = self_array_rep s ! p)"
    using setitem_partial[OF assms] r nm by blast
next
  show "setitem s (ByIndex (int i)) (EntityView This (int i)) = (s, None)"
    by (simp add: setitem_def)
qed

theorem C6_setitem_copies_mutable_fields_witness:
  "shape_ok docked_state \<and> (0::nat) < self_n docked_state \<and>
   \<not> own_view (EntityRecord heavy_habitat) \<and>
   mapM_err (arg_fget docked_state (EntityRecord heavy_habitat)) assigned_fields =
     Inr [VFloat (Finite 1), VFloat (Finite 2), VFloat (Finite 3), VFloat (Finite 4),
          VFloat (Finite 1), VFloat (Finite 0), VFloat (Finite 8), VFloat (Finite 9),
          VStr [], VBool False] \<and>
   (\<exists>a'. setitem docked_state (ByIndex (int 0)) (EntityRecord heavy_habitat) =
           (docked_state\<lparr>self_array_rep := a'\<rparr>, None) \<and>
         mapM_err (view_fget (docked_state\<lparr>self_array_rep := a'\<rparr>) (int 0)) assigned_fields =
           Inr [VFloat (Finite 1), VFloat (Finite 2), VFloat (Finite 3), VFloat (Finite 4),
                VFloat (Finite 1), VFloat (Finite 0), VFloat (Finite 8), VFloat (Finite 9),
                VStr [], VBool False] \<and>
         length a' = length (self_array_rep docked_state)) \<and>
   \<not> own_view (EntityRecord stray_habitat) \<and>
   mapM_err (arg_fget docked_state (EntityRecord stray_habitat)) assigned_fields =
     Inr [VFloat (Finite 100), VFloat (Finite 2), VFloat (Finite 3), VFloat (Finite 4),
          VFloat (Finite 1), VFloat (Finite 0), VFloat (Finite 8), VFloat (Finite 9),
          VStr ''Earth'', VBool True] \<and>
   ''Earth'' \<notin> set (self_entity_names docked_state) \<and>
   (\<exists>a'. setitem docked_state (ByIndex (int 0)) (EntityRecord stray_habitat) =
           (docked_state\<lparr>self_array_rep := a'\<rparr>,
            Some (NoEntityError (''Earth'' @ '' not in entity list''))) \<and>
         mapM_err (view_fget (docked_state\<lparr>self_array_rep := a'\<rparr>) (int 0))
           (take 8 assigned_fields) =
           Inr [VFloat (Finite 100), VFloat (Finite 2), VFloat (Finite 3), VFloat (Finite 4),
                VFloat (Finite 1), VFloat (Finite 0), VFloat (Finite 8), VFloat (Finite 9)] \<and>
         view_fget (docked_state\<lparr>self_array_rep := a'\<rparr>) (int 0) f_landed_on =
           view_fget docked_state (int 0) f_landed_on \<and>
         view_fget (docked_state\<lparr>self_array_rep := a'\<rparr>) (int 0) f_broken =
           view_fget docked_state (int 0) f_broken) \<and>
   setitem docked_state (ByIndex (int 0)) (EntityView This (int 0)) = (docked_state, None)"
proof -
  have n: "(0::nat) < self_n docked_state" by (simp add: docked_state_def)
  have o: "\<not> own_view (EntityRecord heavy_habitat)" by simp
  have o': "\<not> own_view (EntityRecord stray_habitat)" by simp
  let ?hv = "[VFloat (Finite 1), VFloat (Finite 2), VFloat (Finite 3), VFloat (Finite 4),
          VFloat (Finite 1), VFloat (Finite 0), VFloat (Finite 8), VFloat (Finite 9),
          VStr [], VBool False]"
  let ?sv = "[VFloat (Finite 100), VFloat (Finite 2), VFloat (Finite 3), VFloat (Finite 4),
          VFloat (Finite 1), VFloat (Finite 0), VFloat (Finite 8), VFloat (Finite 9),
          VStr ''Earth'', VBool True]"
  have e: "''Earth'' \<noteq> []" "''Earth'' \<notin> set (self_entity_names docked_state)"
    by (simp_all add: docked_state_def HABITAT_def AYSE_def)
  note heavy = C6_setitem_copies_mutable_fields[OF docked_state_shape n o]
  note stray = C6_setitem_copies_mutable_fields[OF docked_state_shape n o']
  have hr: "mapM_err (arg_fget docked_state (EntityRecord heavy_habitat)) assigned_fields =
              Inr ?hv \<and> ?hv ! 8 = VStr []"
    by (simp add: heavy_habitat_reads)
  have sr: "mapM_err (arg_fget docked_state (EntityRecord stray_habitat)) assigned_fields =
              Inr ?sv \<and> ?sv ! 8 = VStr ''Earth''"
    by (simp add: stray_habitat_reads)
  have full: "\<exists>a'. setitem docked_state (ByIndex (int 0)) (EntityRecord heavy_habitat) =
           (docked_state\<lparr>self_array_rep := a'\<rparr>, None) \<and>
         mapM_err (view_fget (docked_state\<lparr>self_array_rep := a'\<rparr>) (int 0)) assigned_fields =
           Inr ?hv \<and>
         length a' = length (self_array_rep docked_state)"
    using heavy hr by blast
  have t8: "take 8 ?sv =
      [VFloat (Finite 100), VFloat (Finite 2), VFloat (Finite 3), VFloat (Finite 4),
       VFloat (Finite 1), VFloat (Finite 0), VFloat (Finite 8), VFloat (Finite 9)]"
    by simp
  have part: "\<exists>a'. setitem docked_state (ByIndex (int 0)) (EntityRecord stray_habitat) =
           (docked_state\<lparr>self_array_rep := a'\<rparr>,
            Some (NoEntityError (''Earth'' @ '' not in entity list''))) \<and>
         mapM_err (view_fget (docked_state\<lparr>self_array_rep := a'\<rparr>) (int 0))
           (take 8 assigned_fields) = Inr (take 8 ?sv) \<and>
         view_fget (docked_state\<lparr>self_array_rep := a'\<rparr>) (int 0) f_landed_on =
           view_fget docked_state (int 0) f_landed_on \<and>
         view_fget (docked_state\<lparr>self_array_rep := a'\<rparr>) (int 0) f_broken =
           view_fget docked_state (int 0) f_broken"
    using stray sr e by blast
  have own: "setitem docked_state (ByIndex (int 0)) (EntityView This (int 0)) = (docked_state, None)"
    using heavy by blast
  show ?thesis
    using docked_state_shape n o o' hr sr e(2) full part own unfolding t8 by blast
qed

text \<open>
  Claim C6 as stated fails in the Habitat and AYSE scenario. Assigning the state's own
  view of entity 1 to index 0 changes nothing, although the indices differ and the two
  entities differ in their landed-on field. Assigning a record of mass 99 to index 0
  leaves the mass of entity 0 at 6: the unchanging fields are not copied. And assigning
  a record landed on "Earth", which is no entity of the state, stores the position, the
  velocity, the heading, the spin, the fuel and the throttle of the record and then
  raises NoEntityError: entity 0 is left with the x of the record, 100, and with its own
  landed-on name and broken flag, "AYSE" and false, where the record has "Earth" and true.
\<close>

theorem C6_setitem_counterexample:
  "setitem docked_state (ByIndex 0) (EntityView This 1) = (docked_state, None) \<and>
   arg_fget docked_state (EntityView This 1) f_landed_on = Inr (VStr []) \<and>
   view_fget docked_state 0 f_landed_on = Inr (VStr AYSE) \<and>
   snd (setitem docked_state (ByIndex 0) (EntityRecord heavy_habitat)) = None \<and>
   getattr heavy_habitat f_mass = VFloat (Finite 99) \<and>
   view_fget (fst (setitem docked_state (ByIndex 0) (EntityRecord heavy_habitat))) 0 f_mass =
     Inr (VFloat (Finite 6)) \<and>
   getattr stray_habitat f_landed_on = VStr ''Earth'' \<and>
   getattr stray_habitat f_broken = VBool True \<and>
   setitem docked_state (ByIndex 0) (EntityRecord stray_habitat) =
     (docked_state\<lparr>self_array_rep :=
        map Finite
          [100, 1, 2, 2, 3, 3, 4, 4, 1, 0, 0, 0, 8, 8, 9, 9, 1, -1, 0, 0, 30, 1]\<rparr>,
      Some (NoEntityError ''Earth not in entity list'')) \<and>
   view_fget (fst (setitem docked_state (ByIndex 0) (EntityRecord stray_habitat))) 0 f_x =
     Inr (VFloat (Finite 100)) \<and>
   view_fget (fst (setitem docked_state (ByIndex 0) (EntityRecord stray_habitat))) 0 f_landed_on =
     Inr (VStr AYSE) \<and>
   view_fget (fst (setitem docked_state (ByIndex 0) (EntityRecord stray_habitat))) 0 f_broken =
     Inr (VBool False)"
proof -
  have n0: "(0::nat) < self_n docked_state" and n1: "(1::nat) < self_n docked_state"
    by (simp_all add: docked_state_def)
  have a: "setitem docked_state (ByIndex 0) (EntityView This 1) = (docked_state, None)"
    by (simp add: setitem_def)
  have b: "view_fget docked_state (int 1) f_landed_on = Inr (VStr [])"
    unfolding view_fget_landed_on[OF docked_state_shape n1]
    using py_int_of_int[of "- 1"] by (simp add: docked_state_def NO_INDEX_def)
  have c: "view_fget docked_state (int 0) f_landed_on = Inr (VStr AYSE)"
    unfolding view_fget_landed_on[OF docked_state_shape n0]
    using py_int_of_int[of 1]
    by (simp add: docked_state_def NO_INDEX_def py_get_def py_index_def)
  have o: "\<not> own_view (EntityRecord heavy_habitat)" by simp
  have l: "[VFloat (Finite 1), VFloat (Finite 2), VFloat (Finite 3), VFloat (Finite 4),
            VFloat (Finite 1), VFloat (Finite 0), VFloat (Finite 8), VFloat (Finite 9),
            VStr [], VBool False] ! 8 = VStr []" by simp
  have r: "[] = [] \<or> [] \<in> set (self_entity_names docked_state)" by simp
  obtain a' where st: "setitem docked_state (ByIndex (int 0)) (EntityRecord heavy_habitat) =
      (docked_state\<lparr>self_array_rep := a'\<rparr>, None)"
    and la: "length a' = length (self_array_rep docked_state)"
    using setitem_assigns[OF docked_state_shape n0 o heavy_habitat_reads l r] by blast
  have sh: "shape_ok (docked_state\<lparr>self_array_rep := a'\<rparr>)"
    using docked_state_shape la by (simp add: shape_ok_array_update)
  have m: "view_fget (docked_state\<lparr>self_array_rep := a'\<rparr>) (int 0) f_mass =
             Inr (VFloat (Finite 6))"
    using view_fget_unchanging[OF sh, of 0 f_mass]
    by (simp add: PER_ENTITY_UNCHANGING_FIELDS_def docked_state_def docked_snapshot_def
        snapshot_of_def body_def)
  let ?t = "docked_state\<lparr>self_array_rep :=
        map Finite
          [100, 1, 2, 2, 3, 3, 4, 4, 1, 0, 0, 0, 8, 8, 9, 9, 1, -1, 0, 0, 30, 1]\<rparr>"
  have "length (map Finite
          [100, 1, 2, 2, 3, 3, 4, 4, 1, 0, 0, 0, 8, 8, 9, 9, 1, -1, 0, 0, 30, 1]) =
        length (self_array_rep docked_state)"
    by (simp add: docked_state_def)
  then have sht: "shape_ok ?t"
    using docked_state_shape by (simp only: shape_ok_array_update)
  have nt: "(0::nat) < self_n ?t" using n0 by simp
  have tx: "view_fget ?t (int 0) f_x = Inr (VFloat (Finite 100))"
    using view_fget_float[OF sht nt float_blocks(1)] by simp
  have tl: "view_fget ?t (int 0) f_landed_on = Inr (VStr AYSE)"
    unfolding view_fget_landed_on[OF sht nt]
    using py_int_of_int[of 1]
    by (simp add: docked_state_def NO_INDEX_def py_get_def py_index_def)
  have tb: "view_fget ?t (int 0) f_broken = Inr (VBool False)"
    unfolding view_fget_bool[OF sht nt] by (simp add: docked_state_def)
  show ?thesis
    using a b c st m stray_habitat_assigned tx tl tb
    by (simp add: arg_fget_def heavy_habitat_def stray_habitat_def body_def)
qed

subsection \<open>Claim C7\<close>

text \<open>
  Claim C7. Writing a name that is not empty and not in the entity list to the landed-on
  field of a view raises the NoEntityError that carries the name, and the state after the
  call is the state before it: no slot of the vector has changed. This holds for every
  state and every index.
\<close>

theorem C7_landed_on_absent_name:
  assumes "w \<noteq> []" and "w \<notin> set (self_entity_names s)"
  shows "view_fset s i f_landed_on (VStr w) =
           (s, Some (NoEntityError (w @ '' not in entity list'')))"
  using name_to_index_absent[OF assms]
  by (simp add: view_fset_landed_on_eq entity_view_mutable_fset_landed_on_def)

theorem C7_landed_on_absent_name_witness:
  "''Earth'' \<noteq> [] \<and> ''Earth'' \<notin> set (self_entity_names docked_state) \<and>
   view_fset docked_state 0 f_landed_on (VStr ''Earth'') =
     (docked_state, Some (NoEntityError (''Earth'' @ '' not in entity list'')))"
proof -
  have a: "''Earth'' \<noteq> []" by simp
  have b: "''Earth'' \<notin> set (self_entity_names docked_state)"
    by (simp add: docked_state_def HABITAT_def AYSE_def)
  show ?thesis
    using a b C7_landed_on_absent_name[OF a b, of 0] by simp
qed

subsection \<open>Claim C8\<close>

text \<open>
  Claim C8, at the input where the code departs from it. Looking up the name "Earth" in
  the state of the Habitat and AYSE scenario fails with the plain ValueError of
  \<^verbatim>\<open>list.index\<close>, not with a NoEntityError, while \<^verbatim>\<open>_name_to_index\<close>, which the landed-on
  setter uses, raises the NoEntityError carrying the name for the same state and name.
\<close>

theorem C8_getitem_absent_name:
  "PhysicsState_init None docked_snapshot = Inr docked_state \<and>
   getitem docked_state (ByName ''Earth'') = Inl ValueError \<and>
   (\<forall>msg. getitem docked_state (ByName ''Earth'') \<noteq> Inl (NoEntityError msg)) \<and>
   name_to_index (self_entity_names docked_state) (Some ''Earth'') =
     Inl (NoEntityError ''Earth not in entity list'')"
  by (simp add: docked_state_init getitem_def docked_state_def name_to_index_def
      HABITAT_def AYSE_def)

subsection \<open>Claim C9\<close>




subsection \<open>Claim C10\<close>

text \<open>
  Claim C10. In a state of the constructed shape, at an entity index \<open>i < n\<close>: writing the
  empty string to the landed-on field succeeds, stores the sentinel -1 in slot
  \<open>8 * n + i\<close>, and the field then reads as the empty string; and a write of a name to
  that field raises NoEntityError only if the name is not empty and not in the entity
  list.
\<close>

theorem C10_landed_on_empty_name:
  assumes "shape_ok s" and "i < self_n s"
  shows "(\<exists>s'. view_fset s (int i) f_landed_on (VStr []) = (s', None) \<and>
               self_array_rep s' = (self_array_rep s)[8 * self_n s + i := Finite (of_int NO_INDEX)] \<and>
               self_array_rep s' ! (8 * self_n s + i) = Finite (- 1) \<and>
               view_fget s' (int i) f_landed_on = Inr (VStr [])) \<and>
         (\<forall>w msg. snd (view_fset s (int i) f_landed_on (VStr w)) = Some (NoEntityError msg) \<longrightarrow>
                  w \<noteq> [] \<and> w \<notin> set (self_entity_names s))"
proof (intro conjI allI impI)
  let ?s' = "s\<lparr>self_array_rep := (self_array_rep s)[8 * self_n s + i := Finite (of_int NO_INDEX)]\<rparr>"
  have k: "name_to_index (self_entity_names s) (Some []) = Inr NO_INDEX"
    by (simp add: name_to_index_def)
  have w: "view_fset s (int i) f_landed_on (VStr []) = (?s', None)"
    by (rule view_fset_landed_on_resolved[OF assms k])
  have sh: "shape_ok ?s'" using assms(1) by (simp add: shape_ok_array_update)
  have i': "i < self_n ?s'" using assms(2) by simp
  have lt: "8 * self_n s + i < length (self_array_rep s)"
    using slot_lt_length[OF assms, of 8] by simp
  have slot: "self_array_rep ?s' ! (8 * self_n ?s' + i) = Finite (- 1)"
    using lt by (simp add: NO_INDEX_def)
  have slot': "self_array_rep ?s' ! (8 * self_n ?s' + i) = Finite (of_int NO_INDEX)"
    using lt by simp
  have rd: "view_fget ?s' (int i) f_landed_on = Inr (VStr [])"
    unfolding view_fget_landed_on[OF sh i'] slot' py_int_of_int by simp
  show "\<exists>s'. view_fset s (int i) f_landed_on (VStr []) = (s', None) \<and>
               self_array_rep s' = (self_array_rep s)[8 * self_n s + i := Finite (of_int NO_INDEX)] \<and>
               self_array_rep s' ! (8 * self_n s + i) = Finite (- 1) \<and>
               view_fget s' (int i) f_landed_on = Inr (VStr [])"
    using w slot rd by (intro exI[of _ ?s']) simp
next
  fix w msg
  assume e: "snd (view_fset s (int i) f_landed_on (VStr w)) = Some (NoEntityError msg)"
  show "w \<noteq> []"
  proof
    assume "w = []"
    then have "name_to_index (self_entity_names s) (Some w) = Inr NO_INDEX"
      by (simp add: name_to_index_def)
    from view_fset_landed_on_resolved[OF assms this] e show False by simp
  qed
  show "w \<notin> set (self_entity_names s)"
  proof
    assume "w \<in> set (self_entity_names s)"
    then obtain k where "name_to_index (self_entity_names s) (Some w) = Inr k"
      using name_to_index_resolves[of w "self_entity_names s"] by blast
    from view_fset_landed_on_resolved[OF assms this] e show False by simp
  qed
qed

theorem C10_landed_on_empty_name_witness:
  "shape_ok docked_state \<and> (0::nat) < self_n docked_state \<and>
   (\<exists>s'. view_fset docked_state (int 0) f_landed_on (VStr []) = (s', None) \<and>
         self_array_rep s' =
           (self_array_rep docked_state)[8 * self_n docked_state + 0 := Finite (of_int NO_INDEX)] \<and>
         self_array_rep s' ! (8 * self_n docked_state + 0) = Finite (- 1) \<and>
         view_fget s' (int 0) f_landed_on = Inr (VStr [])) \<and>
   view_fget docked_state (int 0) f_landed_on = Inr (VStr AYSE)"
proof -
  have n: "(0::nat) < self_n docked_state" by (simp add: docked_state_def)
  have before: "view_fget docked_state (int 0) f_landed_on = Inr (VStr AYSE)"
    unfolding view_fget_landed_on[OF docked_state_shape n]
    using py_int_of_int[of 1]
    by (simp add: docked_state_def NO_INDEX_def py_get_def py_index_def)
  show ?thesis
    using C10_landed_on_empty_name[OF docked_state_shape n] docked_state_shape n before
    by blast
qed

end
